theory Spec2Isabelle
  imports Main "HOL-Library.Sublist"
begin

section \<open>The machine around the package\<close>

text \<open>
  Package pgtest is a sequence of calls into the operating system: it makes directories,
  runs \<^verbatim>\<open>initdb\<close>, \<^verbatim>\<open>cp\<close> and \<^verbatim>\<open>postgres\<close>, polls for a socket file, signals a process
  and removes a directory tree. The model keeps the file system, a clock, the package-level
  variables and the list of calls made so far in a \<open>world\<close>; what a call answers beyond
  what the file system decides (a permission error, a failing child process, a random
  number, the moment the engine opens its socket) is read from an environment \<open>env\<close>,
  a record of functions of the calls made so far, about which nothing is assumed.
\<close>

datatype node = Dir | File string

datatype error = ErrExist | ErrNotExist | Err string

datatype event =
    EMkdir string
  | ETempDir string
  | EInitdb string string
  | ECp string string
  | EPgConfig
  | EOpenFile string
  | EReadFile string
  | EWrite string string
  | EClose string
  | ECmdStart string "string list"
  | EStat string
  | ESleep nat
  | ESignal nat
  | ERemoveAll string

record world =
  fs :: "string \<Rightarrow> node option"
  now :: nat
  trace :: "event list"
  once_done :: bool
  initdbOk :: bool
  postgres :: string

record env =
  TempDir :: string
  rand :: "event list \<Rightarrow> nat"
  mkdir_err :: "event list \<Rightarrow> string \<Rightarrow> error option"
  initdb_err :: "event list \<Rightarrow> error option"
  initdb_files :: "event list \<Rightarrow> (string \<times> node) list"
  cp_err :: "event list \<Rightarrow> error option"
  cp_done :: "event list \<Rightarrow> string \<Rightarrow> bool"
  pg_config_out :: "event list \<Rightarrow> error + string"
  open_err :: "event list \<Rightarrow> string \<Rightarrow> error option"
  read_err :: "event list \<Rightarrow> string \<Rightarrow> error option"
  write_err :: "event list \<Rightarrow> string \<Rightarrow> error option"
  write_n :: "event list \<Rightarrow> nat"
  close_err :: "event list \<Rightarrow> string \<Rightarrow> error option"
  start_out :: "event list \<Rightarrow> string \<Rightarrow> string list \<Rightarrow> error + nat"
  signal_err :: "event list \<Rightarrow> nat \<Rightarrow> error option"
  remove_err :: "event list \<Rightarrow> string \<Rightarrow> error option"
  remove_done :: "event list \<Rightarrow> string \<Rightarrow> bool"
  listening :: "nat \<Rightarrow> string \<Rightarrow> bool"

text \<open>
  \<^verbatim>\<open>t.Fatal(args...)\<close> marks the calling test as failed and ends its goroutine: the
  function that called it does not continue. It is a value \<open>Fatal args\<close> returned in
  place of the result.
\<close>

datatype arg = Str string | Error error

datatype fatal = Fatal "arg list"

definition log :: "event \<Rightarrow> world \<Rightarrow> world" where
  "log e w = w\<lparr>trace := trace w @ [e]\<rparr>"

text \<open>
  \<^verbatim>\<open>filepath.Join\<close> on two clean elements; \<open>under d p\<close> says that \<open>p\<close> is the
  directory \<open>d\<close> or lies in the tree below it.
\<close>

definition Join :: "string \<Rightarrow> string \<Rightarrow> string" where
  "Join a b = a @ ''/'' @ b"

definition under :: "string \<Rightarrow> string \<Rightarrow> bool" where
  "under d p \<longleftrightarrow> p = d \<or> prefix (d @ ''/'') p"

definition IsExist :: "error option \<Rightarrow> bool" where
  "IsExist err \<longleftrightarrow> err = Some ErrExist"

subsection \<open>Package os\<close>

definition os_Mkdir :: "env \<Rightarrow> string \<Rightarrow> world \<Rightarrow> error option \<times> world" where
  "os_Mkdir env p w =
     (let w1 = log (EMkdir p) w in
      if fs w p \<noteq> None then (Some ErrExist, w1)
      else case mkdir_err env (trace w) p of
             Some e \<Rightarrow> (Some e, w1)
           | None \<Rightarrow> (None, w1\<lparr>fs := (fs w)(p \<mapsto> Dir)\<rparr>))"

text \<open>
  \<^verbatim>\<open>os.RemoveAll\<close>: nothing to do and no error when the path does not exist; when it
  succeeds the whole tree is gone; when it fails it has removed what it could.
\<close>

definition os_RemoveAll :: "env \<Rightarrow> string \<Rightarrow> world \<Rightarrow> error option \<times> world" where
  "os_RemoveAll env d w =
     (let w1 = log (ERemoveAll d) w in
      case (if fs w d = None then None else remove_err env (trace w) d) of
        None \<Rightarrow> (None, w1\<lparr>fs := (\<lambda>p. if under d p then None else fs w p)\<rparr>)
      | Some e \<Rightarrow>
          (Some e, w1\<lparr>fs := (\<lambda>p. if under d p \<and> remove_done env (trace w) p
                                  then None else fs w p)\<rparr>))"

text \<open>
  \<^verbatim>\<open>os.Stat(p)\<close> answers without error when \<open>p\<close> is in the file system or is a
  socket a running engine listens on at this moment.
\<close>

definition os_Stat :: "env \<Rightarrow> string \<Rightarrow> world \<Rightarrow> bool \<times> world" where
  "os_Stat env p w = (fs w p \<noteq> None \<or> listening env (now w) p, log (EStat p) w)"

definition time_Sleep :: "nat \<Rightarrow> world \<Rightarrow> world" where
  "time_Sleep ms w = log (ESleep ms) (w\<lparr>now := now w + ms\<rparr>)"

definition Process_Signal :: "env \<Rightarrow> nat \<Rightarrow> world \<Rightarrow> error option \<times> world" where
  "Process_Signal env pid w = (signal_err env (trace w) pid, log (ESignal pid) w)"

text \<open>
  \<^verbatim>\<open>os.OpenFile(p, os.O_APPEND|os.O_WRONLY, 0666)\<close>: there is no \<^verbatim>\<open>O_CREATE\<close>, so
  a path that is not a file is an error. The handle is the path; a write appends, and a
  failed write has appended the first \<open>write_n\<close> bytes.
\<close>

definition os_OpenFile :: "env \<Rightarrow> string \<Rightarrow> world \<Rightarrow> error option \<times> world" where
  "os_OpenFile env p w =
     (let w1 = log (EOpenFile p) w in
      case fs w p of
        None \<Rightarrow> (Some ErrNotExist, w1)
      | Some Dir \<Rightarrow> (Some (Err ''is a directory''), w1)
      | Some (File c) \<Rightarrow> (open_err env (trace w) p, w1))"

definition File_Write :: "env \<Rightarrow> string \<Rightarrow> string \<Rightarrow> world \<Rightarrow> error option \<times> world" where
  "File_Write env p b w =
     (let w1 = log (EWrite p b) w;
          c = (case fs w p of Some (File c) \<Rightarrow> c | _ \<Rightarrow> [])
      in case write_err env (trace w) p of
           None \<Rightarrow> (None, w1\<lparr>fs := (fs w)(p \<mapsto> File (c @ b))\<rparr>)
         | Some e \<Rightarrow> (Some e, w1\<lparr>fs := (fs w)(p \<mapsto> File (c @ take (write_n env (trace w)) b))\<rparr>))"

definition File_Close :: "env \<Rightarrow> string \<Rightarrow> world \<Rightarrow> error option \<times> world" where
  "File_Close env p w = (close_err env (trace w) p, log (EClose p) w)"

definition ioutil_ReadFile :: "env \<Rightarrow> string \<Rightarrow> world \<Rightarrow> (error + string) \<times> world" where
  "ioutil_ReadFile env p w =
     (let w1 = log (EReadFile p) w in
      case fs w p of
        None \<Rightarrow> (Inl ErrNotExist, w1)
      | Some Dir \<Rightarrow> (Inl (Err ''is a directory''), w1)
      | Some (File c) \<Rightarrow>
          (case read_err env (trace w) p of Some e \<Rightarrow> (Inl e, w1) | None \<Rightarrow> (Inr c, w1)))"

text \<open>
  \<^verbatim>\<open>ioutil.TempDir("", prefix)\<close> makes a directory named \<open>prefix\<close> followed by nine
  decimal digits of a random number under \<^verbatim>\<open>os.TempDir()\<close>, and it never returns a
  path that existed. Its retries on a name that is taken are not modelled one by one: the
  random number is that of its last try.
\<close>

definition digit :: "nat \<Rightarrow> char" where
  "digit d = ''0123456789'' ! (d mod 10)"

definition nextSuffix :: "nat \<Rightarrow> string" where
  "nextSuffix r = map (\<lambda>i. digit (r div 10 ^ i)) [8, 7, 6, 5, 4, 3, 2, 1, 0]"

definition ioutil_TempDir :: "env \<Rightarrow> string \<Rightarrow> world \<Rightarrow> (error + string) \<times> world" where
  "ioutil_TempDir env pfx w =
     (let d = Join (TempDir env) (pfx @ nextSuffix (rand env (trace w)));
          w1 = log (ETempDir d) w
      in if fs w d \<noteq> None then (Inl ErrExist, w1)
         else case mkdir_err env (trace w) d of
                Some e \<Rightarrow> (Inl e, w1)
              | None \<Rightarrow> (Inr d, w1\<lparr>fs := (fs w)(d \<mapsto> Dir)\<rparr>))"

subsection \<open>The programs the package runs\<close>

text \<open>
  \<^verbatim>\<open>cp -a src/. dst\<close> writes below \<open>dst\<close> a copy of what is below \<open>src\<close>, and fails
  when \<open>src\<close> is not a directory; a failed run has copied the paths \<open>cp_done\<close> names.
  \<^verbatim>\<open>initdb -D d\<close> writes files below \<open>d\<close>. \<^verbatim>\<open>pg_config --bindir\<close> prints a line.
  Starting a command gives a process or an error, and writes nothing.
\<close>

definition Run_cp :: "env \<Rightarrow> string \<Rightarrow> string \<Rightarrow> world \<Rightarrow> error option \<times> world" where
  "Run_cp env src dst w =
     (let w1 = log (ECp (src @ ''/.'') dst) w;
          err = (if fs w src \<noteq> Some Dir then Some ErrNotExist else cp_err env (trace w));
          copied = (\<lambda>p. prefix (dst @ ''/'') p \<and> (err = None \<or> cp_done env (trace w) p))
      in (err, w1\<lparr>fs := (\<lambda>p. if copied p
                               then (case fs w (src @ ''/'' @ drop (length dst + 1) p) of
                                       Some n \<Rightarrow> Some n
                                     | None \<Rightarrow> fs w p)
                               else fs w p)\<rparr>))"

definition Run_initdb :: "env \<Rightarrow> string \<Rightarrow> string \<Rightarrow> world \<Rightarrow> error option \<times> world" where
  "Run_initdb env prog d w =
     (initdb_err env (trace w),
      (log (EInitdb prog d) w)
        \<lparr>fs := (\<lambda>p. if prefix (d @ ''/'') p
                     then (case map_of (initdb_files env (trace w)) (drop (length d + 1) p) of
                             Some n \<Rightarrow> Some n
                           | None \<Rightarrow> fs w p)
                     else fs w p)\<rparr>)"

definition Output_pg_config :: "env \<Rightarrow> world \<Rightarrow> (error + string) \<times> world" where
  "Output_pg_config env w = (pg_config_out env (trace w), log EPgConfig w)"

definition Cmd_Start :: "env \<Rightarrow> string \<Rightarrow> string list \<Rightarrow> world \<Rightarrow> (error + nat) \<times> world" where
  "Cmd_Start env prog args w = (start_out env (trace w) prog args, log (ECmdStart prog args) w)"

text \<open>
  \<^verbatim>\<open>once.Do(f)\<close> of package sync: \<open>f\<close> runs when no call of \<open>Do\<close> ran it before, and
  the call counts as made also when \<open>f\<close> ends the goroutine (\<^verbatim>\<open>t.Fatal\<close>).
\<close>

definition once_Do :: "(world \<Rightarrow> fatal option \<times> world) \<Rightarrow> world \<Rightarrow> fatal option \<times> world" where
  "once_Do f w =
     (if once_done w then (None, w)
      else case f w of (r, w1) \<Rightarrow> (r, w1\<lparr>once_done := True\<rparr>))"

text \<open>
  The loop at the end of \<^verbatim>\<open>Start\<close>:
  \<^verbatim>\<open>for n := 0; n < 20; n++ { if _, err := os.Stat(sock); err == nil { return pg };
  time.Sleep(50 * time.Millisecond) }\<close>. It answers whether it returned from inside.
\<close>

function wait_sock :: "env \<Rightarrow> string \<Rightarrow> nat \<Rightarrow> world \<Rightarrow> bool \<times> world" where
  "wait_sock env s n w =
     (if n < 20
      then (case os_Stat env s w of
              (True, w1) \<Rightarrow> (True, w1)
            | (False, w1) \<Rightarrow> wait_sock env s (n + 1) (time_Sleep 50 w1))
      else (False, w))"
  by pat_completeness auto
termination
  by (relation "measure (\<lambda>(env, s, n, w). 20 - n)") auto

declare wait_sock.simps [simp del]

section \<open>The instance handle and Stop\<close>

text \<open>
  \<^verbatim>\<open>type PG struct { t *testing.T; dir string; cmd *exec.Cmd }\<close> in pgtest.go; the
  later variant of the package adds the field \<^verbatim>\<open>URL\<close>. The test is a number, the
  command is the process it started.
\<close>

record PG =
  t :: nat
  dir :: string
  cmd :: nat

record PG_p0 = PG +
  URL :: string

text \<open>
  \<^verbatim>\<open>func (pg *PG) Stop()\<close>, the same text in every variant of the package: interrupt
  the process, fail the test if that fails, remove the directory, fail the test if that
  fails.
\<close>

definition Stop :: "env \<Rightarrow> 'a PG_scheme \<Rightarrow> world \<Rightarrow> (fatal + unit) \<times> world" where
  "Stop env pg w =
     (case Process_Signal env (cmd pg) w of
        (Some err, w1) \<Rightarrow> (Inl (Fatal [Str ''postgres:'', Error err]), w1)
      | (None, w1) \<Rightarrow>
          (case os_RemoveAll env (dir pg) w1 of
             (Some err, w2) \<Rightarrow> (Inl (Fatal [Error err]), w2)
           | (None, w2) \<Rightarrow> (Inr (), w2)))"


section \<open>pgtest.go\<close>

text \<open>
  The first text of pgtest.go. The second text in that file differs in one place: the
  template directory is the relative path \<^verbatim>\<open>pgtestdata\<close> instead of
  \<^verbatim>\<open>filepath.Join(os.TempDir(), "pgtestdata")\<close>.
\<close>

definition URL_const :: string where
  "URL_const = ''host=/tmp dbname=postgres sslmode=disable''"

definition sock :: string where
  "sock = ''/tmp/.s.PGSQL.5432''"

definition conf :: string where
  "conf = [CHR 0x0A] @ ''fsync = off'' @ [CHR 0x0A]
        @ ''listen_addresses = '' @ [CHR 0x27, CHR 0x27, CHR 0x0A]
        @ ''unix_socket_directory = '' @ [CHR 0x27] @ ''/tmp'' @ [CHR 0x27, CHR 0x0A]"

definition pgtestdata :: "env \<Rightarrow> string" where
  "pgtestdata env = Join (TempDir env) ''pgtestdata''"

definition maybeInitdb :: "env \<Rightarrow> nat \<Rightarrow> world \<Rightarrow> fatal option \<times> world" where
  "maybeInitdb env tt w =
     (case os_Mkdir env (pgtestdata env) w of (err, w1) \<Rightarrow>
      if IsExist err then (None, w1)
      else (case err of
        Some e \<Rightarrow> (Some (Fatal [Error e]), w1)
      | None \<Rightarrow>
         (case Run_initdb env ''initdb'' (pgtestdata env) w1 of
            (Some e, w2) \<Rightarrow> (Some (Fatal [Str ''initdb'', Error e]), w2)
          | (None, w2) \<Rightarrow>
             (let path = Join (pgtestdata env) ''postgresql.conf'' in
              case os_OpenFile env path w2 of
                (Some e, w3) \<Rightarrow> (Some (Fatal [Error e]), w3)
              | (None, w3) \<Rightarrow>
                 (case File_Write env path conf w3 of
                    (Some e, w4) \<Rightarrow> (Some (Fatal [Error e]), w4)
                  | (None, w4) \<Rightarrow>
                     (case File_Close env path w4 of
                        (Some e, w5) \<Rightarrow> (Some (Fatal [Error e]), w5)
                      | (None, w5) \<Rightarrow> (None, w5)))))))"

text \<open>
  \<^verbatim>\<open>Start\<close> in the order of its text: the guarded initialisation, the temporary
  directory and the copy (\<open>Start_provision\<close>), the launch (\<open>Start_launch\<close>), the wait.
\<close>

definition Start_provision :: "env \<Rightarrow> nat \<Rightarrow> world \<Rightarrow> (fatal + string) \<times> world" where
  "Start_provision env tt w =
     (case ioutil_TempDir env ''pgtest'' w of
        (Inl err, w1) \<Rightarrow> (Inl (Fatal [Error err]), w1)
      | (Inr d, w1) \<Rightarrow>
         (case Run_cp env (pgtestdata env) d w1 of
            (Some err, w2) \<Rightarrow> (Inl (Fatal [Str ''copy:'', Error err]), w2)
          | (None, w2) \<Rightarrow> (Inr d, w2)))"

definition Start_launch :: "env \<Rightarrow> nat \<Rightarrow> string \<Rightarrow> world \<Rightarrow> (fatal + PG) \<times> world" where
  "Start_launch env tt d w =
     (case Cmd_Start env ''postgres'' [''-D'', d] w of
        (Inl err, w1) \<Rightarrow> (Inl (Fatal [Str ''starting postgres:'', Error err]), w1)
      | (Inr pid, w1) \<Rightarrow> (Inr \<lparr>t = tt, dir = d, cmd = pid\<rparr>, w1))"

definition Start_wait :: "env \<Rightarrow> string \<Rightarrow> 'a \<Rightarrow> world \<Rightarrow> (fatal + 'a) \<times> world" where
  "Start_wait env s pg w =
     (case wait_sock env s 0 w of
        (True, w1) \<Rightarrow> (Inr pg, w1)
      | (False, w1) \<Rightarrow> (Inl (Fatal [Str ''timeout waiting for postgres to start'']), w1))"

definition Start :: "env \<Rightarrow> nat \<Rightarrow> world \<Rightarrow> (fatal + PG) \<times> world" where
  "Start env tt w =
     (case once_Do (maybeInitdb env tt) w of
        (Some f, w0) \<Rightarrow> (Inl f, w0)
      | (None, w0) \<Rightarrow>
         (case Start_provision env tt w0 of
            (Inl f, w1) \<Rightarrow> (Inl f, w1)
          | (Inr d, w1) \<Rightarrow>
             (case Start_launch env tt d w1 of
                (Inl f, w2) \<Rightarrow> (Inl f, w2)
              | (Inr pg, w2) \<Rightarrow> Start_wait env sock pg w2)))"

section \<open>The later variant (src/unnamed/part_000)\<close>

text \<open>
  Here the template is \<^verbatim>\<open>pgtestdata1\<close>, the engine is found with \<^verbatim>\<open>pg_config\<close>,
  a failed \<^verbatim>\<open>initdb\<close> removes the template, \<^verbatim>\<open>initdbOk\<close> remembers whether the
  initialisation went through, and the configuration is appended to every copy, with
  the socket directory set to the copy itself.
\<close>

definition isSpace :: "char \<Rightarrow> bool" where
  "isSpace c \<longleftrightarrow> c \<in> set [CHR 0x09, CHR 0x0A, CHR 0x0B, CHR 0x0C, CHR 0x0D, CHR 0x20]"

definition TrimSpace :: "string \<Rightarrow> string" where
  "TrimSpace s = rev (dropWhile isSpace (rev (dropWhile isSpace s)))"

fun bytes_Contains :: "string \<Rightarrow> string \<Rightarrow> bool" where
  "bytes_Contains [] sub = (sub = [])"
| "bytes_Contains (c # cs) sub = (prefix sub (c # cs) \<or> bytes_Contains cs sub)"

text \<open>
  What \<^verbatim>\<open>conf.Execute\<close> writes for the template of the source and the two values it is
  given. The writes of the template engine are one write in the model.
\<close>

definition conf_Execute :: "string \<Rightarrow> bool \<Rightarrow> string" where
  "conf_Execute ConfDir Plural =
     [CHR 0x0A] @ ''fsync = off'' @ [CHR 0x0A]
     @ ''listen_addresses = '' @ [CHR 0x27, CHR 0x27, CHR 0x0A, CHR 0x0A]
     @ (if Plural
        then [CHR 0x0A] @ ''unix_socket_directories = '' @ [CHR 0x27] @ ConfDir @ [CHR 0x27, CHR 0x0A]
        else [CHR 0x0A] @ ''unix_socket_directory = '' @ [CHR 0x27] @ ConfDir @ [CHR 0x27, CHR 0x0A])
     @ [CHR 0x0A, CHR 0x0A]"

definition pgtestdata_p0 :: "env \<Rightarrow> string" where
  "pgtestdata_p0 env = Join (TempDir env) ''pgtestdata1''"

definition contains :: "env \<Rightarrow> string \<Rightarrow> string \<Rightarrow> world \<Rightarrow> bool \<times> world" where
  "contains env substr name w =
     (case ioutil_ReadFile env name w of
        (Inl err, w1) \<Rightarrow> (False, w1)
      | (Inr b, w1) \<Rightarrow> (bytes_Contains b substr, w1))"

definition maybeInitdb_p0 :: "env \<Rightarrow> nat \<Rightarrow> world \<Rightarrow> fatal option \<times> world" where
  "maybeInitdb_p0 env tt w =
     (case Output_pg_config env w of
        (Inl err, w1) \<Rightarrow> (Some (Fatal [Str ''pg_config'', Error err]), w1)
      | (Inr out, w1) \<Rightarrow>
         (let bindir = TrimSpace out;
              w2 = w1\<lparr>postgres := Join bindir ''postgres''\<rparr>;
              initdb = Join bindir ''initdb''
          in case os_Mkdir env (pgtestdata_p0 env) w2 of (err, w3) \<Rightarrow>
             if IsExist err then (None, w3\<lparr>initdbOk := True\<rparr>)
             else (case err of
               Some e \<Rightarrow> (Some (Fatal [Error e]), w3)
             | None \<Rightarrow>
                (case Run_initdb env initdb (pgtestdata_p0 env) w3 of
                   (Some e, w4) \<Rightarrow>
                     (case os_RemoveAll env (pgtestdata_p0 env) w4 of (r, w5) \<Rightarrow>
                        (Some (Fatal [Str ''initdb'', Error e]), w5))
                 | (None, w4) \<Rightarrow> (None, w4\<lparr>initdbOk := True\<rparr>)))))"

definition Start_provision_p0 :: "env \<Rightarrow> nat \<Rightarrow> world \<Rightarrow> (fatal + string) \<times> world" where
  "Start_provision_p0 env tt w =
     (case ioutil_TempDir env ''pgtest'' w of
        (Inl err, w1) \<Rightarrow> (Inl (Fatal [Error err]), w1)
      | (Inr d, w1) \<Rightarrow>
         (case Run_cp env (pgtestdata_p0 env) d w1 of
            (Some err, w2) \<Rightarrow> (Inl (Fatal [Str ''copy:'', Error err]), w2)
          | (None, w2) \<Rightarrow> (Inr d, w2)))"

definition Start_conf_p0 :: "env \<Rightarrow> nat \<Rightarrow> string \<Rightarrow> world \<Rightarrow> (fatal + unit) \<times> world" where
  "Start_conf_p0 env tt d w =
     (let path = Join d ''postgresql.conf'' in
      case os_OpenFile env path w of
        (Some e, w1) \<Rightarrow> (Inl (Fatal [Error e]), w1)
      | (None, w1) \<Rightarrow>
         (case contains env ''unix_socket_directory'' path w1 of (c, w2) \<Rightarrow>
            (let plural = \<not> c in
             case File_Write env path (conf_Execute d plural) w2 of
               (Some e, w3) \<Rightarrow> (Inl (Fatal [Error e]), w3)
             | (None, w3) \<Rightarrow>
                (case File_Close env path w3 of
                   (Some e, w4) \<Rightarrow> (Inl (Fatal [Error e]), w4)
                 | (None, w4) \<Rightarrow> (Inr (), w4)))))"

definition Start_launch_p0 :: "env \<Rightarrow> nat \<Rightarrow> string \<Rightarrow> world \<Rightarrow> (fatal + PG_p0) \<times> world" where
  "Start_launch_p0 env tt d w =
     (case Cmd_Start env (postgres w) [''-D'', d] w of
        (Inl err, w1) \<Rightarrow> (Inl (Fatal [Str ''starting postgres:'', Error err]), w1)
      | (Inr pid, w1) \<Rightarrow>
          (Inr \<lparr>t = tt, dir = d, cmd = pid,
                URL = ''host='' @ d @ '' dbname=postgres sslmode=disable''\<rparr>, w1))"

definition Start_p0 :: "env \<Rightarrow> nat \<Rightarrow> world \<Rightarrow> (fatal + PG_p0) \<times> world" where
  "Start_p0 env tt w =
     (case once_Do (maybeInitdb_p0 env tt) w of
        (Some f, w0) \<Rightarrow> (Inl f, w0)
      | (None, w0) \<Rightarrow>
         if \<not> initdbOk w0 then (Inl (Fatal [Str ''prior initdb attempt failed'']), w0)
         else
         (case Start_provision_p0 env tt w0 of
            (Inl f, w1) \<Rightarrow> (Inl f, w1)
          | (Inr d, w1) \<Rightarrow>
             (case Start_conf_p0 env tt d w1 of
                (Inl f, w2) \<Rightarrow> (Inl f, w2)
              | (Inr u, w2) \<Rightarrow>
                 (case Start_launch_p0 env tt d w2 of
                    (Inl f, w3) \<Rightarrow> (Inl f, w3)
                  | (Inr pg, w3) \<Rightarrow> Start_wait env (Join d ''.s.PGSQL.5432'') pg w3))))"

section \<open>Concrete machines\<close>

text \<open>
  A machine on which nothing fails and the engine listens at once, and a world in which
  one instance runs in \<^verbatim>\<open>/tmp/pgtest000000007\<close>.
\<close>

definition quiet_env :: env where
  "quiet_env =
     \<lparr>TempDir = ''/tmp'', rand = (\<lambda>h. length h), mkdir_err = (\<lambda>h p. None),
      initdb_err = (\<lambda>h. None),
      initdb_files = (\<lambda>h. [(''postgresql.conf'', File ''port = 5432''),
                              (''PG_VERSION'', File ''9.1'')]),
      cp_err = (\<lambda>h. None), cp_done = (\<lambda>h p. True),
      pg_config_out = (\<lambda>h. Inr (''/usr/bin'' @ [CHR 0x0A])),
      open_err = (\<lambda>h p. None), read_err = (\<lambda>h p. None), write_err = (\<lambda>h p. None),
      write_n = (\<lambda>h. 0), close_err = (\<lambda>h p. None),
      start_out = (\<lambda>h c a. Inr (100 + length h)),
      signal_err = (\<lambda>h p. None), remove_err = (\<lambda>h p. None), remove_done = (\<lambda>h p. True),
      listening = (\<lambda>n p. True)\<rparr>"

definition pg7 :: PG where
  "pg7 = \<lparr>t = 1, dir = ''/tmp/pgtest000000007'', cmd = 100\<rparr>"

definition world7 :: world where
  "world7 =
     \<lparr>fs = [''/tmp'' \<mapsto> Dir, ''/tmp/pgtestdata'' \<mapsto> Dir,
            ''/tmp/pgtest000000007'' \<mapsto> Dir,
            ''/tmp/pgtest000000007/postgresql.conf'' \<mapsto> File ''port = 5432''],
      now = 0, trace = [], once_done = True, initdbOk = True, postgres = []\<rparr>"

text \<open>The same machine, except that signalling a process always fails.\<close>

definition sigfail_env :: env where
  "sigfail_env = quiet_env\<lparr>signal_err := (\<lambda>h p. Some (Err ''os: process already finished''))\<rparr>"

text \<open>The quiet machine, except that a process can be signalled once only.\<close>

definition resignal_env :: env where
  "resignal_env =
     quiet_env\<lparr>signal_err := (\<lambda>h p. if ESignal p \<in> set h
                                     then Some (Err ''os: process already finished'')
                                     else None)\<rparr>"

text \<open>
  The world after \<open>k\<close> rounds of the loop in which the socket was not found: \<open>k\<close>
  calls of \<^verbatim>\<open>os.Stat\<close>, each followed by a sleep of 50 ms.
\<close>

definition after_misses :: "string \<Rightarrow> nat \<Rightarrow> world \<Rightarrow> world" where
  "after_misses s k w =
     w\<lparr>now := now w + 50 * k, trace := trace w @ concat (replicate k [EStat s, ESleep 50])\<rparr>"

text \<open>
  The quiet machine with an engine that never opens its socket, and with one that opens
  it 100 ms after the clock started; a world in which the once-guard has run and both
  templates exist.
\<close>

definition deaf_env :: env where
  "deaf_env = quiet_env\<lparr>listening := (\<lambda>n p. False)\<rparr>"

definition slow_env :: env where
  "slow_env = quiet_env\<lparr>listening := (\<lambda>n p. 100 \<le> n)\<rparr>"

definition world_tpl :: world where
  "world_tpl =
     \<lparr>fs = [''/tmp'' \<mapsto> Dir,
            ''/tmp/pgtestdata'' \<mapsto> Dir,
            ''/tmp/pgtestdata/postgresql.conf'' \<mapsto> File ''port = 5432'',
            ''/tmp/pgtestdata1'' \<mapsto> Dir,
            ''/tmp/pgtestdata1/postgresql.conf'' \<mapsto> File ''port = 5432''],
      now = 0, trace = [], once_done = True, initdbOk = True,
      postgres = ''/usr/bin/postgres''\<rparr>"

text \<open>
  The name \<^verbatim>\<open>ioutil.TempDir("", "pgtest")\<close> gives a directory when the random number
  is \<open>r\<close>.
\<close>

definition tmpname :: "env \<Rightarrow> nat \<Rightarrow> string" where
  "tmpname env r = Join (TempDir env) (''pgtest'' @ nextSuffix r)"

text \<open>The quiet machine, except that no command can be started.\<close>

definition nolaunch_env :: env where
  "nolaunch_env = quiet_env\<lparr>start_out := (\<lambda>h c a. Inl ErrNotExist)\<rparr>"

text \<open>
  The quiet machine, except that \<^verbatim>\<open>initdb\<close> fails; and the world of a process that has
  just begun, on a machine where no template exists yet.
\<close>

definition initdb_fail_env :: env where
  "initdb_fail_env = quiet_env\<lparr>initdb_err := (\<lambda>h. Some (Err ''exit status 1''))\<rparr>"

definition world_bare :: world where
  "world_bare = \<lparr>fs = [''/tmp'' \<mapsto> Dir], now = 0, trace = [], once_done = False,
                  initdbOk = False, postgres = []\<rparr>"

section \<open>Stop\<close>

text \<open>
  Claim C7. Whenever \<^verbatim>\<open>Stop\<close> returns without reporting an error, the working directory
  of the instance no longer exists: neither the directory nor any path below it is in
  the file system.
\<close>

theorem Stop_ok_dir_gone:
  "Stop env pg w = (Inr (), w') \<Longrightarrow>
     fs w' (dir pg) = None \<and> (\<forall>p. under (dir pg) p \<longrightarrow> fs w' p = None)"
  by (auto simp: Stop_def Process_Signal_def os_RemoveAll_def log_def Let_def under_def
           split: option.splits if_splits prod.splits)

theorem Stop_ok_dir_gone_witness:
  "fs world7 (dir pg7) = Some Dir
   \<and> fst (Stop quiet_env pg7 world7) = Inr ()
   \<and> fs (snd (Stop quiet_env pg7 world7)) (dir pg7) = None
   \<and> under (dir pg7) ''/tmp/pgtest000000007/postgresql.conf''
   \<and> fs (snd (Stop quiet_env pg7 world7)) ''/tmp/pgtest000000007/postgresql.conf'' = None"
proof -
  have run: "Stop quiet_env pg7 world7 = (Inr (), snd (Stop quiet_env pg7 world7))"
    by (simp add: Stop_def Process_Signal_def os_RemoveAll_def log_def quiet_env_def
          pg7_def world7_def)
  have u: "under (dir pg7) ''/tmp/pgtest000000007/postgresql.conf''"
    by (simp add: under_def pg7_def)
  have before: "fs world7 (dir pg7) = Some Dir"
    by (simp add: world7_def pg7_def)
  from Stop_ok_dir_gone [OF run] u before run show ?thesis
    by (metis fst_conv)
qed

text \<open>
  Claim C1, as stated: when signalling the process fails, \<^verbatim>\<open>Stop\<close> still attempts to
  remove the working directory, and reports the signalling error. The second half holds,
  the first does not: \<^verbatim>\<open>pg.t.Fatal\<close> ends the call before \<^verbatim>\<open>os.RemoveAll\<close>. On the
  machine where signalling fails, no removal is attempted and the directory stays.
\<close>

theorem Stop_signal_error_counterexample:
  "signal_err sigfail_env (trace world7) (cmd pg7) = Some (Err ''os: process already finished'')
   \<and> fst (Stop sigfail_env pg7 world7)
       = Inl (Fatal [Str ''postgres:'', Error (Err ''os: process already finished'')])
   \<and> ERemoveAll (dir pg7) \<notin> set (trace (snd (Stop sigfail_env pg7 world7)))
   \<and> fs (snd (Stop sigfail_env pg7 world7)) (dir pg7) = Some Dir"
  by (simp add: Stop_def Process_Signal_def log_def sigfail_env_def quiet_env_def
        pg7_def world7_def)

text \<open>
  Claim C1, amended: when signalling the process fails with an error, \<^verbatim>\<open>Stop\<close> reports
  that error, with the prefix \<^verbatim>\<open>postgres:\<close>, and returns at once: the only call it has
  made is the signal, and the file system is as it was.
\<close>

theorem Stop_signal_error:
  "signal_err env (trace w) (cmd pg) = Some e \<Longrightarrow>
     Stop env pg w = (Inl (Fatal [Str ''postgres:'', Error e]), log (ESignal (cmd pg)) w)
     \<and> fs (snd (Stop env pg w)) = fs w
     \<and> trace (snd (Stop env pg w)) = trace w @ [ESignal (cmd pg)]"
  by (simp add: Stop_def Process_Signal_def log_def)

theorem Stop_signal_error_witness:
  "signal_err sigfail_env (trace world7) (cmd pg7) = Some (Err ''os: process already finished'')
   \<and> Stop sigfail_env pg7 world7
       = (Inl (Fatal [Str ''postgres:'', Error (Err ''os: process already finished'')]),
          log (ESignal (cmd pg7)) world7)
   \<and> fs (snd (Stop sigfail_env pg7 world7)) = fs world7
   \<and> trace (snd (Stop sigfail_env pg7 world7)) = trace world7 @ [ESignal (cmd pg7)]"
proof -
  have h: "signal_err sigfail_env (trace world7) (cmd pg7)
             = Some (Err ''os: process already finished'')"
    by (simp add: sigfail_env_def)
  from Stop_signal_error [OF h] h show ?thesis by blast
qed


text \<open>
  Claim C9, as stated: a second call of \<^verbatim>\<open>Stop\<close> on the same instance reports an
  error. The code keeps no record of a call: on the quiet machine the second call signals
  again, finds no directory to remove, and returns without an error.
\<close>

theorem Stop_twice_counterexample:
  "fst (Stop quiet_env pg7 world7) = Inr ()
   \<and> fst (Stop quiet_env pg7 (snd (Stop quiet_env pg7 world7))) = Inr ()"
  by (simp add: Stop_def Process_Signal_def os_RemoveAll_def log_def quiet_env_def
        pg7_def world7_def)

text \<open>
  Claim C9, amended: after a call of \<^verbatim>\<open>Stop\<close> that returned without an error, a second
  call on the same instance signals the process again; it reports an error exactly when
  that signal fails, and otherwise returns without one. In both cases it leaves the file
  system as it found it.
\<close>

theorem Stop_twice:
  "Stop env pg w = (Inr (), w1) \<Longrightarrow>
     fst (Stop env pg w1) =
       (case signal_err env (trace w1) (cmd pg) of
          Some e \<Rightarrow> Inl (Fatal [Str ''postgres:'', Error e])
        | None \<Rightarrow> Inr ())
     \<and> fs (snd (Stop env pg w1)) = fs w1"
  by (auto simp: Stop_def Process_Signal_def os_RemoveAll_def log_def Let_def under_def
           split: option.splits if_splits prod.splits intro!: ext)

theorem Stop_twice_witness:
  "fst (Stop resignal_env pg7 world7) = Inr ()
   \<and> fst (Stop resignal_env pg7 (snd (Stop resignal_env pg7 world7)))
     = Inl (Fatal [Str ''postgres:'', Error (Err ''os: process already finished'')])
   \<and> fs (snd (Stop resignal_env pg7 (snd (Stop resignal_env pg7 world7))))
     = fs (snd (Stop resignal_env pg7 world7))"
proof -
  have run: "Stop resignal_env pg7 world7 = (Inr (), snd (Stop resignal_env pg7 world7))"
    by (simp add: Stop_def Process_Signal_def os_RemoveAll_def log_def resignal_env_def
          quiet_env_def pg7_def world7_def)
  have sig: "signal_err resignal_env (trace (snd (Stop resignal_env pg7 world7))) (cmd pg7)
               = Some (Err ''os: process already finished'')"
    by (simp add: Stop_def Process_Signal_def os_RemoveAll_def log_def resignal_env_def
          quiet_env_def pg7_def world7_def)
  from Stop_twice [OF run]
  have a: "fst (Stop resignal_env pg7 (snd (Stop resignal_env pg7 world7))) =
             (case signal_err resignal_env (trace (snd (Stop resignal_env pg7 world7))) (cmd pg7) of
                Some e \<Rightarrow> Inl (Fatal [Str ''postgres:'', Error e])
              | None \<Rightarrow> Inr ())"
    and b: "fs (snd (Stop resignal_env pg7 (snd (Stop resignal_env pg7 world7))))
             = fs (snd (Stop resignal_env pg7 world7))"
    by blast+
  have c: "fst (Stop resignal_env pg7 world7) = Inr ()"
    by (subst run) simp
  from a b c show ?thesis
    by (simp only: sig option.case)
qed

section \<open>The readiness wait\<close>

lemma after_misses_0: "after_misses s 0 w = w"
  by (simp add: after_misses_def)

lemma after_misses_Suc:
  "after_misses s (Suc k) w = after_misses s k (time_Sleep 50 (log (EStat s) w))"
  by (simp add: after_misses_def time_Sleep_def log_def)

lemma fs_after_misses: "fs (after_misses s k w) = fs w"
  by (simp add: after_misses_def)

lemma wait_sock_miss:
  "n < 20 \<Longrightarrow> \<not> (fs w s \<noteq> None \<or> listening env (now w) s) \<Longrightarrow>
     wait_sock env s n w = wait_sock env s (Suc n) (time_Sleep 50 (log (EStat s) w))"
  by (subst wait_sock.simps) (simp add: os_Stat_def)

lemma wait_sock_hit:
  "n < 20 \<Longrightarrow> fs w s \<noteq> None \<or> listening env (now w) s \<Longrightarrow>
     wait_sock env s n w = (True, log (EStat s) w)"
  by (subst wait_sock.simps) (auto simp add: os_Stat_def)

lemma wait_sock_end: "\<not> n < 20 \<Longrightarrow> wait_sock env s n w = (False, w)"
  by (subst wait_sock.simps) simp

lemma wait_sock_timeout:
  "n + m = 20 \<Longrightarrow>
   (\<forall>k<m. \<not> (fs w s \<noteq> None \<or> listening env (now w + 50 * k) s)) \<Longrightarrow>
   wait_sock env s n w = (False, after_misses s m w)"
proof (induction m arbitrary: n w)
  case 0
  then show ?case by (simp add: wait_sock_end after_misses_0)
next
  case (Suc m)
  let ?w = "time_Sleep 50 (log (EStat s) w)"
  from Suc.prems have n: "n < 20" by simp
  from Suc.prems(2) have miss: "\<not> (fs w s \<noteq> None \<or> listening env (now w) s)"
    by (metis add.right_neutral mult_zero_right zero_less_Suc)
  have rest: "\<forall>k<m. \<not> (fs ?w s \<noteq> None \<or> listening env (now ?w + 50 * k) s)"
  proof (intro allI impI)
    fix k assume "k < m"
    then have "Suc k < Suc m" by simp
    with Suc.prems(2) have "\<not> (fs w s \<noteq> None \<or> listening env (now w + 50 * Suc k) s)"
      by blast
    then show "\<not> (fs ?w s \<noteq> None \<or> listening env (now ?w + 50 * k) s)"
      by (simp add: time_Sleep_def log_def ac_simps)
  qed
  from Suc.prems(1) have "Suc n + m = 20" by simp
  from Suc.IH [OF this rest] wait_sock_miss [OF n miss]
  show ?case by (simp add: after_misses_Suc)
qed

lemma wait_sock_found:
  "n + j < 20 \<Longrightarrow>
   (\<forall>k<j. \<not> (fs w s \<noteq> None \<or> listening env (now w + 50 * k) s)) \<Longrightarrow>
   fs w s \<noteq> None \<or> listening env (now w + 50 * j) s \<Longrightarrow>
   wait_sock env s n w = (True, log (EStat s) (after_misses s j w))"
proof (induction j arbitrary: n w)
  case 0
  then show ?case by (simp add: wait_sock_hit after_misses_0)
next
  case (Suc j)
  let ?w = "time_Sleep 50 (log (EStat s) w)"
  from Suc.prems have n: "n < 20" by simp
  from Suc.prems(2) have miss: "\<not> (fs w s \<noteq> None \<or> listening env (now w) s)"
    by (metis add.right_neutral mult_zero_right zero_less_Suc)
  have rest: "\<forall>k<j. \<not> (fs ?w s \<noteq> None \<or> listening env (now ?w + 50 * k) s)"
  proof (intro allI impI)
    fix k assume "k < j"
    then have "Suc k < Suc j" by simp
    with Suc.prems(2) have "\<not> (fs w s \<noteq> None \<or> listening env (now w + 50 * Suc k) s)"
      by blast
    then show "\<not> (fs ?w s \<noteq> None \<or> listening env (now ?w + 50 * k) s)"
      by (simp add: time_Sleep_def log_def ac_simps)
  qed
  from Suc.prems(3) have found: "fs ?w s \<noteq> None \<or> listening env (now ?w + 50 * j) s"
    by (simp add: time_Sleep_def log_def ac_simps)
  from Suc.prems(1) have "Suc n + j < 20" by simp
  from Suc.IH [OF this rest found] wait_sock_miss [OF n miss]
  show ?case by (simp add: after_misses_Suc)
qed

lemma Start_wait_timeout:
  assumes "\<forall>k<20. \<not> (fs v s \<noteq> None \<or> listening env (now v + 50 * k) s)"
  shows "Start_wait env s x v =
           (Inl (Fatal [Str ''timeout waiting for postgres to start'']),
            v\<lparr>now := now v + 1000,
              trace := trace v @ concat (replicate 20 [EStat s, ESleep 50])\<rparr>)"
proof -
  have "(0::nat) + 20 = 20" by simp
  from wait_sock_timeout [OF this assms]
  have "wait_sock env s 0 v = (False, after_misses s 20 v)" .
  then show ?thesis
    by (simp add: Start_wait_def after_misses_def)
qed

lemma Start_wait_found:
  assumes "j < 20"
    and "\<forall>k<j. \<not> (fs v s \<noteq> None \<or> listening env (now v + 50 * k) s)"
    and "fs v s \<noteq> None \<or> listening env (now v + 50 * j) s"
  shows "Start_wait env s x v =
           (Inr x, v\<lparr>now := now v + 50 * j,
                     trace := trace v @ concat (replicate j [EStat s, ESleep 50]) @ [EStat s]\<rparr>)"
proof -
  from assms(1) have "0 + j < 20" by simp
  from wait_sock_found [OF this assms(2) assms(3)]
  have "wait_sock env s 0 v = (True, log (EStat s) (after_misses s j v))" .
  then show ?thesis
    by (simp add: Start_wait_def after_misses_def log_def)
qed

text \<open>
  Claim C6. \<^verbatim>\<open>Start\<close> ends with the readiness wait: in pgtest.go on the fixed socket
  path, in the later variant on the socket path inside the working directory (first two
  parts). If no check finds the socket, the wait makes exactly 20 checks, each followed by
  a sleep of 50 ms, and then fails with the timeout error, 1000 ms after it began (third
  part). If the check after \<open>j < 20\<close> sleeps is the first that finds the socket, the wait
  returns the instance at that check, after \<open>j\<close> sleeps and \<open>j + 1\<close> checks (fourth part).
\<close>

theorem Start_readiness_wait:
  "(once_Do (maybeInitdb env tt) w = (None, w0) \<and> Start_provision env tt w0 = (Inr d, w1)
      \<and> Start_launch env tt d w1 = (Inr pg, w2)
      \<longrightarrow> Start env tt w = Start_wait env sock pg w2)
   \<and> (once_Do (maybeInitdb_p0 env tt) w = (None, w0') \<and> initdbOk w0'
      \<and> Start_provision_p0 env tt w0' = (Inr d', w1') \<and> Start_conf_p0 env tt d' w1' = (Inr (), w2')
      \<and> Start_launch_p0 env tt d' w2' = (Inr pg', w3')
      \<longrightarrow> Start_p0 env tt w = Start_wait env (Join d' ''.s.PGSQL.5432'') pg' w3')
   \<and> ((\<forall>k<20. \<not> (fs v s \<noteq> None \<or> listening env (now v + 50 * k) s))
      \<longrightarrow> Start_wait env s x v =
            (Inl (Fatal [Str ''timeout waiting for postgres to start'']),
             v\<lparr>now := now v + 1000,
               trace := trace v @ concat (replicate 20 [EStat s, ESleep 50])\<rparr>))
   \<and> (j < 20 \<and> (\<forall>k<j. \<not> (fs v s \<noteq> None \<or> listening env (now v + 50 * k) s))
        \<and> (fs v s \<noteq> None \<or> listening env (now v + 50 * j) s)
      \<longrightarrow> Start_wait env s x v =
            (Inr x, v\<lparr>now := now v + 50 * j,
                      trace := trace v @ concat (replicate j [EStat s, ESleep 50]) @ [EStat s]\<rparr>))"
proof (intro conjI impI)
  assume "once_Do (maybeInitdb env tt) w = (None, w0) \<and> Start_provision env tt w0 = (Inr d, w1)
      \<and> Start_launch env tt d w1 = (Inr pg, w2)"
  then show "Start env tt w = Start_wait env sock pg w2"
    by (simp add: Start_def)
next
  assume "once_Do (maybeInitdb_p0 env tt) w = (None, w0') \<and> initdbOk w0'
      \<and> Start_provision_p0 env tt w0' = (Inr d', w1') \<and> Start_conf_p0 env tt d' w1' = (Inr (), w2')
      \<and> Start_launch_p0 env tt d' w2' = (Inr pg', w3')"
  then show "Start_p0 env tt w = Start_wait env (Join d' ''.s.PGSQL.5432'') pg' w3'"
    by (simp add: Start_p0_def)
next
  assume "\<forall>k<20. \<not> (fs v s \<noteq> None \<or> listening env (now v + 50 * k) s)"
  then show "Start_wait env s x v =
            (Inl (Fatal [Str ''timeout waiting for postgres to start'']),
             v\<lparr>now := now v + 1000,
               trace := trace v @ concat (replicate 20 [EStat s, ESleep 50])\<rparr>)"
    by (rule Start_wait_timeout)
next
  assume "j < 20 \<and> (\<forall>k<j. \<not> (fs v s \<noteq> None \<or> listening env (now v + 50 * k) s))
        \<and> (fs v s \<noteq> None \<or> listening env (now v + 50 * j) s)"
  then show "Start_wait env s x v =
            (Inr x, v\<lparr>now := now v + 50 * j,
                      trace := trace v @ concat (replicate j [EStat s, ESleep 50]) @ [EStat s]\<rparr>)"
  proof (elim conjE)
    assume a: "j < 20"
      and b: "\<forall>k<j. \<not> (fs v s \<noteq> None \<or> listening env (now v + 50 * k) s)"
      and c: "fs v s \<noteq> None \<or> listening env (now v + 50 * j) s"
    show ?thesis by (rule Start_wait_found [OF a b c])
  qed
qed

theorem Start_readiness_wait_witness:
  "fst (Start deaf_env 1 world_tpl) = Inl (Fatal [Str ''timeout waiting for postgres to start''])
   \<and> trace (snd (Start deaf_env 1 world_tpl))
       = [ETempDir ''/tmp/pgtest000000000'',
          ECp ''/tmp/pgtestdata/.'' ''/tmp/pgtest000000000'',
          ECmdStart ''postgres'' [''-D'', ''/tmp/pgtest000000000'']]
         @ concat (replicate 20 [EStat sock, ESleep 50])
   \<and> now (snd (Start deaf_env 1 world_tpl)) = 1000
   \<and> fst (Start_p0 slow_env 1 world_tpl)
       = Inr \<lparr>t = 1, dir = ''/tmp/pgtest000000000'', cmd = 106,
              URL = ''host=/tmp/pgtest000000000 dbname=postgres sslmode=disable''\<rparr>
   \<and> trace (snd (Start_p0 slow_env 1 world_tpl))
       = [ETempDir ''/tmp/pgtest000000000'',
          ECp ''/tmp/pgtestdata1/.'' ''/tmp/pgtest000000000'',
          EOpenFile ''/tmp/pgtest000000000/postgresql.conf'',
          EReadFile ''/tmp/pgtest000000000/postgresql.conf'',
          EWrite ''/tmp/pgtest000000000/postgresql.conf''
            (conf_Execute ''/tmp/pgtest000000000'' True),
          EClose ''/tmp/pgtest000000000/postgresql.conf'',
          ECmdStart ''/usr/bin/postgres'' [''-D'', ''/tmp/pgtest000000000'']]
         @ concat (replicate 2 [EStat ''/tmp/pgtest000000000/.s.PGSQL.5432'', ESleep 50])
         @ [EStat ''/tmp/pgtest000000000/.s.PGSQL.5432'']
   \<and> now (snd (Start_p0 slow_env 1 world_tpl)) = 100"
proof -
  let ?d = "''/tmp/pgtest000000000''"
  note defs = ioutil_TempDir_def Run_cp_def Join_def nextSuffix_def digit_def log_def
    deaf_env_def slow_env_def quiet_env_def world_tpl_def pgtestdata_def pgtestdata_p0_def
    Cmd_Start_def os_OpenFile_def File_Write_def File_Close_def ioutil_ReadFile_def
    contains_def Let_def sock_def
  \<comment> \<open>pgtest.go, the socket never appears\<close>
  define w1 where "w1 = snd (Start_provision deaf_env 1 world_tpl)"
  define w2 where "w2 = snd (Start_launch deaf_env 1 ?d w1)"
  define pg where "pg = \<lparr>t = 1, dir = ?d, cmd = 102\<rparr>"
  have a0: "once_Do (maybeInitdb deaf_env 1) world_tpl = (None, world_tpl)"
    by (simp add: once_Do_def world_tpl_def)
  have a1: "Start_provision deaf_env 1 world_tpl = (Inr ?d, w1)"
    unfolding w1_def by (simp add: Start_provision_def defs)
  have tr1: "trace w1 = [ETempDir ?d, ECp ''/tmp/pgtestdata/.'' ?d]"
    unfolding w1_def by (simp add: Start_provision_def defs)
  have a2: "Start_launch deaf_env 1 ?d w1 = (Inr pg, w2)"
    unfolding w2_def pg_def by (simp add: Start_launch_def Cmd_Start_def log_def tr1 deaf_env_def quiet_env_def)
  have tr2: "trace w2 = [ETempDir ?d, ECp ''/tmp/pgtestdata/.'' ?d, ECmdStart ''postgres'' [''-D'', ?d]]"
    unfolding w2_def by (simp add: Start_launch_def Cmd_Start_def log_def tr1 deaf_env_def quiet_env_def)
  have now2: "now w2 = 0"
    unfolding w2_def w1_def by (simp add: Start_launch_def Start_provision_def defs)
  have a3: "\<forall>k<20. \<not> (fs w2 sock \<noteq> None \<or> listening deaf_env (now w2 + 50 * k) sock)"
    unfolding w2_def w1_def by (simp add: Start_launch_def Start_provision_def defs)
  from Start_readiness_wait [of deaf_env 1 world_tpl world_tpl ?d w1 pg w2 _ _ _ _ _ _ w2 sock pg]
    a0 a1 a2 a3
  have A: "Start deaf_env 1 world_tpl =
            (Inl (Fatal [Str ''timeout waiting for postgres to start'']),
             w2\<lparr>now := now w2 + 1000,
                trace := trace w2 @ concat (replicate 20 [EStat sock, ESleep 50])\<rparr>)"
    by simp
  \<comment> \<open>the later variant, the socket appears 100 ms after the launch\<close>
  let ?s = "Join ?d ''.s.PGSQL.5432''"
  define v1 where "v1 = snd (Start_provision_p0 slow_env 1 world_tpl)"
  define v2 where "v2 = snd (Start_conf_p0 slow_env 1 ?d v1)"
  define v3 where "v3 = snd (Start_launch_p0 slow_env 1 ?d v2)"
  define pg' where "pg' = \<lparr>t = 1, dir = ?d, cmd = 106,
              URL = ''host=/tmp/pgtest000000000 dbname=postgres sslmode=disable''\<rparr>"
  have b0: "once_Do (maybeInitdb_p0 slow_env 1) world_tpl = (None, world_tpl)"
    by (simp add: once_Do_def world_tpl_def)
  have b0': "initdbOk world_tpl" by (simp add: world_tpl_def)
  have b1: "Start_provision_p0 slow_env 1 world_tpl = (Inr ?d, v1)"
    unfolding v1_def by (simp add: Start_provision_p0_def defs)
  have b2: "Start_conf_p0 slow_env 1 ?d v1 = (Inr (), v2)"
    unfolding v2_def v1_def by (simp add: Start_conf_p0_def Start_provision_p0_def defs)
  have trv2: "trace v2 = [ETempDir ?d, ECp ''/tmp/pgtestdata1/.'' ?d,
          EOpenFile ''/tmp/pgtest000000000/postgresql.conf'',
          EReadFile ''/tmp/pgtest000000000/postgresql.conf'',
          EWrite ''/tmp/pgtest000000000/postgresql.conf'' (conf_Execute ?d True),
          EClose ''/tmp/pgtest000000000/postgresql.conf'']"
    unfolding v2_def v1_def by (simp add: Start_conf_p0_def Start_provision_p0_def defs)
  have pv2: "postgres v2 = ''/usr/bin/postgres''"
    unfolding v2_def v1_def by (simp add: Start_conf_p0_def Start_provision_p0_def defs)
  have b3: "Start_launch_p0 slow_env 1 ?d v2 = (Inr pg', v3)"
    unfolding v3_def pg'_def by (simp add: Start_launch_p0_def Cmd_Start_def log_def trv2 pv2 slow_env_def quiet_env_def)
  have trv3: "trace v3 = trace v2 @ [ECmdStart ''/usr/bin/postgres'' [''-D'', ?d]]"
    unfolding v3_def by (simp add: Start_launch_p0_def Cmd_Start_def log_def trv2 pv2 slow_env_def quiet_env_def)
  have nowv3: "now v3 = 0"
    unfolding v3_def v2_def v1_def
    by (simp add: Start_launch_p0_def Start_conf_p0_def Start_provision_p0_def defs)
  have fsv3: "fs v3 ?s = None"
    unfolding v3_def v2_def v1_def
    by (simp add: Start_launch_p0_def Start_conf_p0_def Start_provision_p0_def defs)
  have b4: "(2::nat) < 20 \<and> (\<forall>k<2. \<not> (fs v3 ?s \<noteq> None \<or> listening slow_env (now v3 + 50 * k) ?s))
        \<and> (fs v3 ?s \<noteq> None \<or> listening slow_env (now v3 + 50 * 2) ?s)"
    by (simp add: fsv3 nowv3 slow_env_def quiet_env_def less_Suc_eq numeral_2_eq_2)
  from Start_readiness_wait [of slow_env 1 world_tpl _ _ _ _ _ world_tpl ?d v1 v2 pg' v3 v3 ?s pg' 2]
    b0 b0' b1 b2 b3 b4
  have B: "Start_p0 slow_env 1 world_tpl =
            (Inr pg', v3\<lparr>now := now v3 + 50 * 2,
                      trace := trace v3 @ concat (replicate 2 [EStat ?s, ESleep 50]) @ [EStat ?s]\<rparr>)"
    by simp
  show ?thesis
    unfolding A B by (simp add: tr2 now2 trv3 trv2 nowv3 pg'_def Join_def)
qed

section \<open>What a call can change\<close>

lemma not_prefix_slash: "\<not> prefix (d @ ''/'') d"
  using prefix_length_le by fastforce

lemma under_prefix: "under d p \<Longrightarrow> prefix d p"
  by (auto simp: under_def prefix_def)

lemma below_under: "prefix (d @ ''/'') p \<Longrightarrow> under d p"
  by (simp add: under_def)

lemma under_self: "under d d"
  by (simp add: under_def)


lemma digit_in: "digit d \<in> set ''0123456789''"
proof -
  have "d mod 10 < length ''0123456789''" by simp
  then show ?thesis unfolding digit_def by (rule nth_mem)
qed

lemma hd_nextSuffix: "hd (nextSuffix r) \<in> set ''0123456789''"
  by (simp only: nextSuffix_def list.map list.sel digit_in)

lemma TempDir_ok:
  "ioutil_TempDir env ''pgtest'' w = (Inr d, w1) \<Longrightarrow>
     d = tmpname env (rand env (trace w)) \<and> fs w d = None
     \<and> w1 = (log (ETempDir d) w)\<lparr>fs := (fs w)(d \<mapsto> Dir)\<rparr>"
  by (auto simp: ioutil_TempDir_def tmpname_def Let_def split: if_splits option.splits)

lemma TempDir_fail:
  "ioutil_TempDir env pfx w = (Inl e, w1) \<Longrightarrow> fs w1 = fs w"
  by (auto simp: ioutil_TempDir_def Let_def log_def split: if_splits option.splits)

lemma Run_cp_frame:
  "Run_cp env src dst w = (r, w1) \<Longrightarrow> \<not> prefix (dst @ ''/'') p \<Longrightarrow> fs w1 p = fs w p"
  by (auto simp: Run_cp_def Let_def log_def)

lemma Run_cp_trace:
  "Run_cp env src dst w = (r, w1) \<Longrightarrow> trace w1 = trace w @ [ECp (src @ ''/.'') dst]"
  by (auto simp: Run_cp_def Let_def log_def)

lemma Start_provision_ok:
  assumes "Start_provision env tt w = (Inr d, w1)"
  shows "d = tmpname env (rand env (trace w))" and "fs w d = None" and "fs w1 d = Some Dir"
    and "\<not> under d p \<Longrightarrow> fs w1 p = fs w p"
proof -
  from assms obtain w' where td: "ioutil_TempDir env ''pgtest'' w = (Inr d, w')"
    and cp: "Run_cp env (pgtestdata env) d w' = (None, w1)"
    by (auto simp: Start_provision_def split: prod.splits sum.splits option.splits)
  note t = TempDir_ok [OF td]
  from t show "d = tmpname env (rand env (trace w))" by (rule conjunct1)
  from t show "fs w d = None" by (elim conjE)
  from t have "fs w' d = Some Dir" by (simp add: log_def)
  with Run_cp_frame [OF cp not_prefix_slash] show "fs w1 d = Some Dir" by simp
  assume nu: "\<not> under d p"
  then have "\<not> prefix (d @ ''/'') p" and "p \<noteq> d" by (auto simp: under_def)
  with Run_cp_frame [OF cp] t show "fs w1 p = fs w p" by (simp add: log_def)
qed

lemma Start_provision_frame:
  assumes "Start_provision env tt w = (r, w1)"
    and "\<not> under (tmpname env (rand env (trace w))) p"
  shows "fs w1 p = fs w p"
proof (cases "ioutil_TempDir env ''pgtest'' w")
  case (Pair a w')
  show ?thesis
  proof (cases a)
    case (Inl e)
    with Pair assms(1) have "w1 = w'" by (simp add: Start_provision_def)
    with TempDir_fail Pair Inl show ?thesis by metis
  next
    case (Inr d)
    note t = TempDir_ok [OF Pair [unfolded Inr]]
    obtain c w'' where cp: "Run_cp env (pgtestdata env) d w' = (c, w'')"
      by (cases "Run_cp env (pgtestdata env) d w'")
    with Pair Inr assms(1) have "w1 = w''"
      by (auto simp: Start_provision_def split: option.splits)
    from assms(2) t have "\<not> prefix (d @ ''/'') p" and "p \<noteq> d" by (auto simp: under_def)
    with Run_cp_frame [OF cp] t \<open>w1 = w''\<close> show ?thesis by (simp add: log_def)
  qed
qed

lemma Start_provision_p0_ok:
  assumes "Start_provision_p0 env tt w = (Inr d, w1)"
  shows "d = tmpname env (rand env (trace w))" and "fs w d = None" and "fs w1 d = Some Dir"
    and "\<not> under d p \<Longrightarrow> fs w1 p = fs w p"
proof -
  from assms obtain w' where td: "ioutil_TempDir env ''pgtest'' w = (Inr d, w')"
    and cp: "Run_cp env (pgtestdata_p0 env) d w' = (None, w1)"
    by (auto simp: Start_provision_p0_def split: prod.splits sum.splits option.splits)
  note t = TempDir_ok [OF td]
  from t show "d = tmpname env (rand env (trace w))" by (rule conjunct1)
  from t show "fs w d = None" by (elim conjE)
  from t have "fs w' d = Some Dir" by (simp add: log_def)
  with Run_cp_frame [OF cp not_prefix_slash] show "fs w1 d = Some Dir" by simp
  assume nu: "\<not> under d p"
  then have "\<not> prefix (d @ ''/'') p" and "p \<noteq> d" by (auto simp: under_def)
  with Run_cp_frame [OF cp] t show "fs w1 p = fs w p" by (simp add: log_def)
qed

lemma Start_provision_p0_frame:
  assumes "Start_provision_p0 env tt w = (r, w1)"
    and "\<not> under (tmpname env (rand env (trace w))) p"
  shows "fs w1 p = fs w p"
proof (cases "ioutil_TempDir env ''pgtest'' w")
  case (Pair a w')
  show ?thesis
  proof (cases a)
    case (Inl e)
    with Pair assms(1) have "w1 = w'" by (simp add: Start_provision_p0_def)
    with TempDir_fail Pair Inl show ?thesis by metis
  next
    case (Inr d)
    note t = TempDir_ok [OF Pair [unfolded Inr]]
    obtain c w'' where cp: "Run_cp env (pgtestdata_p0 env) d w' = (c, w'')"
      by (cases "Run_cp env (pgtestdata_p0 env) d w'")
    with Pair Inr assms(1) have "w1 = w''"
      by (auto simp: Start_provision_p0_def split: option.splits)
    from assms(2) t have "\<not> prefix (d @ ''/'') p" and "p \<noteq> d" by (auto simp: under_def)
    with Run_cp_frame [OF cp] t \<open>w1 = w''\<close> show ?thesis by (simp add: log_def)
  qed
qed

lemma Start_conf_p0_frame:
  "Start_conf_p0 env tt d w = (r, w1) \<Longrightarrow> p \<noteq> Join d ''postgresql.conf'' \<Longrightarrow> fs w1 p = fs w p"
  by (auto simp: Start_conf_p0_def os_OpenFile_def contains_def ioutil_ReadFile_def
        File_Write_def File_Close_def log_def Let_def
      split: option.splits node.splits prod.splits sum.splits if_splits)

lemma conf_not_dir: "Join d ''postgresql.conf'' \<noteq> d"
  by (simp add: Join_def)

lemma conf_under: "under d (Join d ''postgresql.conf'')"
  by (simp add: under_def Join_def)

lemma Start_launch_frame: "Start_launch env tt d w = (r, w1) \<Longrightarrow> fs w1 = fs w"
  by (auto simp: Start_launch_def Cmd_Start_def log_def split: sum.splits)

lemma Start_launch_p0_frame: "Start_launch_p0 env tt d w = (r, w1) \<Longrightarrow> fs w1 = fs w"
  by (auto simp: Start_launch_p0_def Cmd_Start_def log_def split: sum.splits)

lemma wait_sock_frame: "fs (snd (wait_sock env s n w)) = fs w"
proof (induction env s n w rule: wait_sock.induct)
  case (1 env s n w)
  show ?case
  proof (cases "n < 20")
    case False
    then show ?thesis by (simp add: wait_sock_end)
  next
    case True
    show ?thesis
    proof (cases "fs w s \<noteq> None \<or> listening env (now w) s")
      case hit: True
      from wait_sock_hit [OF True hit] show ?thesis by (simp add: log_def)
    next
      case miss: False
      have st: "os_Stat env s w = (False, log (EStat s) w)"
        using miss by (simp add: os_Stat_def)
      from "1.IH" [OF True st [symmetric] refl]
      have "fs (snd (wait_sock env s (n + 1) (time_Sleep 50 (log (EStat s) w))))
              = fs (time_Sleep 50 (log (EStat s) w))" by simp
      with wait_sock_miss [OF True miss] show ?thesis
        by (simp add: time_Sleep_def log_def)
    qed
  qed
qed

lemma Start_wait_frame: "Start_wait env s x w = (r, w1) \<Longrightarrow> fs w1 = fs w"
  using wait_sock_frame [of env s 0 w]
  by (auto simp: Start_wait_def split: prod.splits bool.splits)

lemma Stop_frame: "Stop env pg w = (r, w1) \<Longrightarrow> \<not> under (dir pg) p \<Longrightarrow> fs w1 p = fs w p"
  by (auto simp: Stop_def Process_Signal_def os_RemoveAll_def log_def Let_def
      split: option.splits if_splits prod.splits)




lemma not_digit_d: "CHR ''d'' \<notin> set ''0123456789''"
  by simp

lemma nextSuffix_Cons: "\<exists>c cs. nextSuffix r = c # cs \<and> c \<in> set ''0123456789''"
  using hd_nextSuffix [of r] by (cases "nextSuffix r") (simp_all add: nextSuffix_def)

lemma tmpname_not_template:
  assumes "under (pgtestdata env) p \<or> under (pgtestdata_p0 env) p"
  shows "\<not> under (tmpname env r) p"
proof
  assume u: "under (tmpname env r) p"
  obtain c cs where sfx: "nextSuffix r = c # cs" and c: "c \<in> set ''0123456789''"
    using nextSuffix_Cons by blast
  from c have cd: "c \<noteq> CHR ''d''" by auto
  from assms obtain x where x: "x = ''data'' \<or> x = ''data1''"
    and px: "prefix (TempDir env @ ''/pgtest'' @ x) p"
    by (auto simp: pgtestdata_def pgtestdata_p0_def Join_def dest!: under_prefix)
  from u have "prefix (TempDir env @ ''/pgtest'' @ c # cs) p"
    by (auto simp: tmpname_def Join_def sfx dest!: under_prefix)
  with px have "prefix (TempDir env @ ''/pgtest'' @ x) (TempDir env @ ''/pgtest'' @ c # cs)
      \<or> prefix (TempDir env @ ''/pgtest'' @ c # cs) (TempDir env @ ''/pgtest'' @ x)"
    using prefix_same_cases by blast
  then have "prefix x (c # cs) \<or> prefix (c # cs) x" by simp
  with x cd show False by auto
qed

section \<open>A launch that fails\<close>

text \<open>
  Claim C3, as stated: when the engine cannot be started, \<^verbatim>\<open>Start\<close> reports a fatal
  launch error and no working directory made for the instance remains. The first half
  holds. The second does not: \<^verbatim>\<open>t.Fatal\<close> ends \<^verbatim>\<open>Start\<close> with the directory in place,
  in both variants. On the machine where no command starts, the directory
  \<^verbatim>\<open>/tmp/pgtest000000000\<close> did not exist before the call and exists after it.
\<close>

theorem Start_launch_error_counterexample:
  "fs world_tpl ''/tmp/pgtest000000000'' = None
   \<and> fst (Start nolaunch_env 1 world_tpl)
       = Inl (Fatal [Str ''starting postgres:'', Error ErrNotExist])
   \<and> fs (snd (Start nolaunch_env 1 world_tpl)) ''/tmp/pgtest000000000'' = Some Dir
   \<and> fst (Start_p0 nolaunch_env 1 world_tpl)
       = Inl (Fatal [Str ''starting postgres:'', Error ErrNotExist])
   \<and> fs (snd (Start_p0 nolaunch_env 1 world_tpl)) ''/tmp/pgtest000000000'' = Some Dir"
  by (simp add: Start_def Start_p0_def once_Do_def Start_provision_def Start_provision_p0_def
        Start_conf_p0_def Start_launch_def Start_launch_p0_def
        ioutil_TempDir_def Run_cp_def Join_def nextSuffix_def digit_def log_def
        nolaunch_env_def quiet_env_def world_tpl_def pgtestdata_def pgtestdata_p0_def
        Cmd_Start_def os_OpenFile_def File_Write_def File_Close_def ioutil_ReadFile_def
        contains_def Let_def)

text \<open>
  Claim C3, amended: when \<^verbatim>\<open>Start\<close> has provisioned the working directory \<open>d\<close> and
  starting the engine fails with an error, \<^verbatim>\<open>Start\<close> reports that error with the
  prefix \<^verbatim>\<open>starting postgres:\<close>, the attempt to start being the last call it makes; the
  directory \<open>d\<close>, which did not exist before, is still there afterwards. This holds in
  pgtest.go (first part) and in the later variant (second part).
\<close>

theorem Start_launch_error:
  "(once_Do (maybeInitdb env tt) w = (None, w0) \<and> Start_provision env tt w0 = (Inr d, w1)
      \<and> start_out env (trace w1) ''postgres'' [''-D'', d] = Inl e
    \<longrightarrow> Start env tt w = (Inl (Fatal [Str ''starting postgres:'', Error e]),
                          log (ECmdStart ''postgres'' [''-D'', d]) w1)
        \<and> fs w0 d = None \<and> fs (snd (Start env tt w)) d = Some Dir)
   \<and> (once_Do (maybeInitdb_p0 env tt) w = (None, w0') \<and> initdbOk w0'
      \<and> Start_provision_p0 env tt w0' = (Inr d', w1')
      \<and> Start_conf_p0 env tt d' w1' = (Inr (), w2')
      \<and> start_out env (trace w2') (postgres w2') [''-D'', d'] = Inl e'
    \<longrightarrow> Start_p0 env tt w = (Inl (Fatal [Str ''starting postgres:'', Error e']),
                             log (ECmdStart (postgres w2') [''-D'', d']) w2')
        \<and> fs w0' d' = None \<and> fs (snd (Start_p0 env tt w)) d' = Some Dir)"
proof (intro conjI impI; elim conjE)
  assume a: "once_Do (maybeInitdb env tt) w = (None, w0)"
    and b: "Start_provision env tt w0 = (Inr d, w1)"
    and c: "start_out env (trace w1) ''postgres'' [''-D'', d] = Inl e"
  from a b c show run: "Start env tt w = (Inl (Fatal [Str ''starting postgres:'', Error e]),
                          log (ECmdStart ''postgres'' [''-D'', d]) w1)"
    by (simp add: Start_def Start_launch_def Cmd_Start_def)
  from Start_provision_ok(2) [OF b] show "fs w0 d = None" .
  from Start_provision_ok(3) [OF b] show "fs (snd (Start env tt w)) d = Some Dir"
    by (simp add: run log_def)
next
  assume a: "once_Do (maybeInitdb_p0 env tt) w = (None, w0')" and ok: "initdbOk w0'"
    and b: "Start_provision_p0 env tt w0' = (Inr d', w1')"
    and cf: "Start_conf_p0 env tt d' w1' = (Inr (), w2')"
    and c: "start_out env (trace w2') (postgres w2') [''-D'', d'] = Inl e'"
  from a ok b cf c show run: "Start_p0 env tt w =
      (Inl (Fatal [Str ''starting postgres:'', Error e']),
       log (ECmdStart (postgres w2') [''-D'', d']) w2')"
    by (simp add: Start_p0_def Start_launch_p0_def Cmd_Start_def)
  from Start_provision_p0_ok(2) [OF b] show "fs w0' d' = None" .
  from Start_conf_p0_frame [OF cf conf_not_dir [symmetric]] Start_provision_p0_ok(3) [OF b]
  show "fs (snd (Start_p0 env tt w)) d' = Some Dir"
    by (simp add: run log_def)
qed


theorem Start_launch_error_witness:
  "Start nolaunch_env 2 world_tpl
     = (Inl (Fatal [Str ''starting postgres:'', Error ErrNotExist]),
        log (ECmdStart ''postgres'' [''-D'', ''/tmp/pgtest000000000''])
          (snd (Start_provision nolaunch_env 2 world_tpl)))
   \<and> fs world_tpl ''/tmp/pgtest000000000'' = None
   \<and> fs (snd (Start nolaunch_env 2 world_tpl)) ''/tmp/pgtest000000000'' = Some Dir
   \<and> Start_p0 nolaunch_env 2 world_tpl
     = (Inl (Fatal [Str ''starting postgres:'', Error ErrNotExist]),
        log (ECmdStart ''/usr/bin/postgres'' [''-D'', ''/tmp/pgtest000000000''])
          (snd (Start_conf_p0 nolaunch_env 2 ''/tmp/pgtest000000000''
                 (snd (Start_provision_p0 nolaunch_env 2 world_tpl)))))
   \<and> fs (snd (Start_p0 nolaunch_env 2 world_tpl)) ''/tmp/pgtest000000000'' = Some Dir"
proof -
  let ?d = "''/tmp/pgtest000000000''"
  note defs = ioutil_TempDir_def Run_cp_def Join_def nextSuffix_def digit_def log_def
    nolaunch_env_def quiet_env_def world_tpl_def pgtestdata_def pgtestdata_p0_def
    os_OpenFile_def File_Write_def File_Close_def ioutil_ReadFile_def contains_def Let_def
  define w1 where "w1 = snd (Start_provision nolaunch_env 2 world_tpl)"
  have a0: "once_Do (maybeInitdb nolaunch_env 2) world_tpl = (None, world_tpl)"
    by (simp add: once_Do_def world_tpl_def)
  have a1: "Start_provision nolaunch_env 2 world_tpl = (Inr ?d, w1)"
    unfolding w1_def by (simp add: Start_provision_def defs)
  have a2: "start_out nolaunch_env (trace w1) ''postgres'' [''-D'', ?d] = Inl ErrNotExist"
    by (simp add: nolaunch_env_def)
  note A = Start_launch_error [THEN conjunct1, THEN mp, OF conjI [OF a0 conjI [OF a1 a2]]]
  have A': "Start nolaunch_env 2 world_tpl
             = (Inl (Fatal [Str ''starting postgres:'', Error ErrNotExist]),
                log (ECmdStart ''postgres'' [''-D'', ?d]) w1)
           \<and> fs world_tpl ?d = None \<and> fs (snd (Start nolaunch_env 2 world_tpl)) ?d = Some Dir"
    by (rule A)
  define v1 where "v1 = snd (Start_provision_p0 nolaunch_env 2 world_tpl)"
  define v2 where "v2 = snd (Start_conf_p0 nolaunch_env 2 ?d v1)"
  have b0: "once_Do (maybeInitdb_p0 nolaunch_env 2) world_tpl = (None, world_tpl)"
    by (simp add: once_Do_def world_tpl_def)
  have b0': "initdbOk world_tpl" by (simp add: world_tpl_def)
  have b1: "Start_provision_p0 nolaunch_env 2 world_tpl = (Inr ?d, v1)"
    unfolding v1_def by (simp add: Start_provision_p0_def defs)
  have b2: "Start_conf_p0 nolaunch_env 2 ?d v1 = (Inr (), v2)"
    unfolding v2_def v1_def by (simp add: Start_conf_p0_def Start_provision_p0_def defs)
  have pv2: "postgres v2 = ''/usr/bin/postgres''"
    unfolding v2_def v1_def by (simp add: Start_conf_p0_def Start_provision_p0_def defs)
  have b3: "start_out nolaunch_env (trace v2) (postgres v2) [''-D'', ?d] = Inl ErrNotExist"
    by (simp add: nolaunch_env_def)
  note B = Start_launch_error [THEN conjunct2, THEN mp,
      OF conjI [OF b0 conjI [OF b0' conjI [OF b1 conjI [OF b2 b3]]]]]
  have B': "Start_p0 nolaunch_env 2 world_tpl
             = (Inl (Fatal [Str ''starting postgres:'', Error ErrNotExist]),
                log (ECmdStart ''/usr/bin/postgres'' [''-D'', ?d]) v2)
           \<and> fs world_tpl ?d = None
           \<and> fs (snd (Start_p0 nolaunch_env 2 world_tpl)) ?d = Some Dir"
    by (rule B [unfolded pv2])
  from A' B' show ?thesis
    unfolding w1_def v2_def v1_def by (elim conjE, intro conjI)
qed

section \<open>A successful Start, taken apart\<close>

lemma Start_ok_parts:
  assumes "Start env tt w = (Inr pg, w1)"
  obtains w0 wa wb where "once_Do (maybeInitdb env tt) w = (None, w0)"
    and "Start_provision env tt w0 = (Inr (dir pg), wa)"
    and "Start_launch env tt (dir pg) wa = (Inr pg, wb)"
    and "Start_wait env sock pg wb = (Inr pg, w1)"
proof -
  from assms obtain w0 where a: "once_Do (maybeInitdb env tt) w = (None, w0)"
    by (auto simp: Start_def split: prod.splits option.splits)
  with assms obtain d wa where b: "Start_provision env tt w0 = (Inr d, wa)"
    by (auto simp: Start_def split: prod.splits sum.splits)
  with a assms obtain pg' wb where c: "Start_launch env tt d wa = (Inr pg', wb)"
    by (auto simp: Start_def split: prod.splits sum.splits)
  with a b assms have e: "Start_wait env sock pg' wb = (Inr pg, w1)"
    by (simp add: Start_def)
  then have "pg' = pg"
    by (auto simp: Start_wait_def split: prod.splits bool.splits)
  moreover from c have "dir pg' = d"
    by (auto simp: Start_launch_def split: prod.splits sum.splits)
  ultimately show ?thesis using a b c e that by blast
qed

lemma Start_p0_ok_parts:
  assumes "Start_p0 env tt w = (Inr pg, w1)"
  obtains w0 wa wb wc where "once_Do (maybeInitdb_p0 env tt) w = (None, w0)"
    and "initdbOk w0"
    and "Start_provision_p0 env tt w0 = (Inr (dir pg), wa)"
    and "Start_conf_p0 env tt (dir pg) wa = (Inr (), wb)"
    and "Start_launch_p0 env tt (dir pg) wb = (Inr pg, wc)"
    and "Start_wait env (Join (dir pg) ''.s.PGSQL.5432'') pg wc = (Inr pg, w1)"
    and "URL pg = ''host='' @ dir pg @ '' dbname=postgres sslmode=disable''"
proof -
  from assms obtain w0 where a: "once_Do (maybeInitdb_p0 env tt) w = (None, w0)"
    by (auto simp: Start_p0_def split: prod.splits option.splits)
  with assms have ok: "initdbOk w0"
    by (auto simp: Start_p0_def split: if_splits)
  with a assms obtain d wa where b: "Start_provision_p0 env tt w0 = (Inr d, wa)"
    by (auto simp: Start_p0_def split: prod.splits sum.splits)
  with a ok assms obtain wb where cf: "Start_conf_p0 env tt d wa = (Inr (), wb)"
    by (auto simp: Start_p0_def split: prod.splits sum.splits)
  with a ok b assms obtain pg' wc where c: "Start_launch_p0 env tt d wb = (Inr pg', wc)"
    by (auto simp: Start_p0_def split: prod.splits sum.splits)
  with a ok b cf assms have e: "Start_wait env (Join d ''.s.PGSQL.5432'') pg' wc = (Inr pg, w1)"
    by (simp add: Start_p0_def)
  then have "pg' = pg"
    by (auto simp: Start_wait_def split: prod.splits bool.splits)
  moreover from c have "dir pg' = d"
    and "URL pg' = ''host='' @ d @ '' dbname=postgres sslmode=disable''"
    by (auto simp: Start_launch_p0_def split: prod.splits sum.splits)
  ultimately show ?thesis using a ok b cf c e that by blast
qed




section \<open>Two instances\<close>


text \<open>Two calls of \<^verbatim>\<open>Start\<close>, one after the other, on the quiet machine.\<close>

lemma Start_wait_first:
  "fs v s \<noteq> None \<or> listening env (now v) s \<Longrightarrow> Start_wait env s x v = (Inr x, log (EStat s) v)"
  by (simp add: Start_wait_def wait_sock_hit)

lemmas machine_defs = ioutil_TempDir_def Run_cp_def Join_def nextSuffix_def digit_def log_def
    quiet_env_def pgtestdata_def pgtestdata_p0_def Cmd_Start_def
    os_OpenFile_def File_Write_def File_Close_def ioutil_ReadFile_def contains_def Let_def
    sock_def once_Do_def Start_provision_def Start_provision_p0_def Start_conf_p0_def
    Start_launch_def Start_launch_p0_def Start_wait_first

lemma first_Start:
  "fst (Start quiet_env 5 world_tpl) = Inr \<lparr>t = 5, dir = ''/tmp/pgtest000000000'', cmd = 102\<rparr>"
  "trace (snd (Start quiet_env 5 world_tpl))
     = [ETempDir ''/tmp/pgtest000000000'', ECp ''/tmp/pgtestdata/.'' ''/tmp/pgtest000000000'',
        ECmdStart ''postgres'' [''-D'', ''/tmp/pgtest000000000''], EStat ''/tmp/.s.PGSQL.5432'']"
  "once_done (snd (Start quiet_env 5 world_tpl))"
  "now (snd (Start quiet_env 5 world_tpl)) = 0"
  "fs (snd (Start quiet_env 5 world_tpl)) ''/tmp/pgtest000000000'' = Some Dir"
  "fs (snd (Start quiet_env 5 world_tpl)) ''/tmp/pgtest000000004'' = None"
  "fs (snd (Start quiet_env 5 world_tpl)) ''/tmp/pgtestdata'' = Some Dir"
  "fs (snd (Start quiet_env 5 world_tpl)) ''/tmp/pgtestdata/postgresql.conf'' = Some (File ''port = 5432'')"
  by (simp_all add: Start_def machine_defs world_tpl_def)


lemma first_Start_p0:
  "fst (Start_p0 quiet_env 5 world_tpl)
     = Inr \<lparr>t = 5, dir = ''/tmp/pgtest000000000'', cmd = 106,
            URL = ''host=/tmp/pgtest000000000 dbname=postgres sslmode=disable''\<rparr>"
  "length (trace (snd (Start_p0 quiet_env 5 world_tpl))) = 8"
  "once_done (snd (Start_p0 quiet_env 5 world_tpl))"
  "initdbOk (snd (Start_p0 quiet_env 5 world_tpl))"
  "postgres (snd (Start_p0 quiet_env 5 world_tpl)) = ''/usr/bin/postgres''"
  "now (snd (Start_p0 quiet_env 5 world_tpl)) = 0"
  "fs (snd (Start_p0 quiet_env 5 world_tpl)) ''/tmp/pgtest000000000'' = Some Dir"
  "fs (snd (Start_p0 quiet_env 5 world_tpl)) ''/tmp/pgtest000000008'' = None"
  "fs (snd (Start_p0 quiet_env 5 world_tpl)) ''/tmp/pgtestdata1'' = Some Dir"
  "fs (snd (Start_p0 quiet_env 5 world_tpl)) ''/tmp/pgtestdata1/postgresql.conf''
     = Some (File ''port = 5432'')"
  by (simp_all add: Start_p0_def machine_defs world_tpl_def)





section \<open>The template is left alone\<close>

lemma maybeInitdb_template_exists:
  "fs w (pgtestdata env) \<noteq> None \<Longrightarrow> fs (snd (maybeInitdb env tt w)) = fs w"
  by (auto simp: maybeInitdb_def os_Mkdir_def log_def Let_def IsExist_def)

lemma maybeInitdb_p0_template_exists:
  "fs w (pgtestdata_p0 env) \<noteq> None \<Longrightarrow> fs (snd (maybeInitdb_p0 env tt w)) = fs w"
  by (auto simp: maybeInitdb_p0_def Output_pg_config_def os_Mkdir_def log_def Let_def IsExist_def
      split: sum.splits)

lemma once_Do_frame:
  assumes "once_done w \<or> fs (snd (f w)) = fs w"
  shows "fs (snd (once_Do f w)) = fs w"
  using assms by (auto simp: once_Do_def split: prod.splits)

lemma Start_after_once_frame:
  assumes o: "fs (snd (once_Do (maybeInitdb env tt) w)) = fs w"
    and nu: "\<And>r. \<not> under (tmpname env r) p"
  shows "fs (snd (Start env tt w)) p = fs w p"
proof -
  obtain r0 w0 where a: "once_Do (maybeInitdb env tt) w = (r0, w0)"
    by (cases "once_Do (maybeInitdb env tt) w")
  with o have f0: "fs w0 = fs w" by simp
  show ?thesis
  proof (cases r0)
    case (Some f)
    with a f0 show ?thesis by (simp add: Start_def)
  next
    case None
    obtain r1 w1 where b: "Start_provision env tt w0 = (r1, w1)"
      by (cases "Start_provision env tt w0")
    from Start_provision_frame [OF b nu] f0 have f1: "fs w1 p = fs w p" by simp
    show ?thesis
    proof (cases r1)
      case (Inl f)
      with a None b f1 show ?thesis by (simp add: Start_def)
    next
      case (Inr d)
      obtain r2 w2 where c: "Start_launch env tt d w1 = (r2, w2)"
        by (cases "Start_launch env tt d w1")
      from Start_launch_frame [OF c] f1 have f2: "fs w2 p = fs w p" by simp
      show ?thesis
      proof (cases r2)
        case (Inl f)
        with a None b Inr c f2 show ?thesis by (simp add: Start_def)
      next
        case (Inr pg)
        obtain r3 w3 where e: "Start_wait env sock pg w2 = (r3, w3)"
          by (cases "Start_wait env sock pg w2")
        from Start_wait_frame [OF e] f2 have "fs w3 p = fs w p" by simp
        with a None b \<open>r1 = Inr d\<close> c Inr e show ?thesis by (simp add: Start_def)
      qed
    qed
  qed
qed

lemma Start_p0_after_once_frame:
  assumes o: "fs (snd (once_Do (maybeInitdb_p0 env tt) w)) = fs w"
    and nu: "\<And>r. \<not> under (tmpname env r) p"
  shows "fs (snd (Start_p0 env tt w)) p = fs w p"
proof -
  obtain r0 w0 where a: "once_Do (maybeInitdb_p0 env tt) w = (r0, w0)"
    by (cases "once_Do (maybeInitdb_p0 env tt) w")
  with o have f0: "fs w0 = fs w" by simp
  show ?thesis
  proof (cases "r0 = None \<and> initdbOk w0")
    case False
    with a f0 show ?thesis by (auto simp: Start_p0_def split: option.splits)
  next
    case True
    obtain r1 w1 where b: "Start_provision_p0 env tt w0 = (r1, w1)"
      by (cases "Start_provision_p0 env tt w0")
    from Start_provision_p0_frame [OF b nu] f0 have f1: "fs w1 p = fs w p" by simp
    show ?thesis
    proof (cases r1)
      case (Inl f)
      with a True b f1 show ?thesis by (simp add: Start_p0_def)
    next
      case (Inr d)
      from b Inr have "d = tmpname env (rand env (trace w0))"
        using Start_provision_p0_ok(1) by blast
      with nu [of "rand env (trace w0)"] conf_under [of d] have pc: "p \<noteq> Join d ''postgresql.conf''"
        by auto
      obtain r2 w2 where cf: "Start_conf_p0 env tt d w1 = (r2, w2)"
        by (cases "Start_conf_p0 env tt d w1")
      from Start_conf_p0_frame [OF cf pc] f1 have f2: "fs w2 p = fs w p" by simp
      show ?thesis
      proof (cases r2)
        case (Inl f)
        with a True b Inr cf f2 show ?thesis by (simp add: Start_p0_def)
      next
        case u: (Inr u)
        obtain r3 w3 where c: "Start_launch_p0 env tt d w2 = (r3, w3)"
          by (cases "Start_launch_p0 env tt d w2")
        from Start_launch_p0_frame [OF c] f2 have f3: "fs w3 p = fs w p" by simp
        show ?thesis
        proof (cases r3)
          case (Inl f)
          with a True b Inr cf u c f3 show ?thesis by (simp add: Start_p0_def)
        next
          case pg: (Inr pg)
          obtain r4 w4 where e: "Start_wait env (Join d ''.s.PGSQL.5432'') pg w3 = (r4, w4)"
            by (cases "Start_wait env (Join d ''.s.PGSQL.5432'') pg w3")
          from Start_wait_frame [OF e] f3 have "fs w4 p = fs w p" by simp
          with a True b Inr cf u c pg e show ?thesis by (simp add: Start_p0_def)
        qed
      qed
    qed
  qed
qed

lemma Start_after_init_frame:
  assumes nu: "\<And>r. \<not> under (tmpname env r) p"
  shows "fs (snd (Start env tt w)) p = fs (snd (once_Do (maybeInitdb env tt) w)) p"
proof -
  obtain r0 w0 where a: "once_Do (maybeInitdb env tt) w = (r0, w0)"
    by (cases "once_Do (maybeInitdb env tt) w")
  show ?thesis
  proof (cases r0)
    case (Some f)
    with a show ?thesis by (simp add: Start_def)
  next
    case None
    obtain r1 w1 where b: "Start_provision env tt w0 = (r1, w1)"
      by (cases "Start_provision env tt w0")
    from Start_provision_frame [OF b nu] have f1: "fs w1 p = fs w0 p" .
    show ?thesis
    proof (cases r1)
      case (Inl f)
      with a None b f1 show ?thesis by (simp add: Start_def)
    next
      case (Inr d)
      obtain r2 w2 where c: "Start_launch env tt d w1 = (r2, w2)"
        by (cases "Start_launch env tt d w1")
      from Start_launch_frame [OF c] f1 have f2: "fs w2 p = fs w0 p" by simp
      show ?thesis
      proof (cases r2)
        case (Inl f)
        with a None b Inr c f2 show ?thesis by (simp add: Start_def)
      next
        case (Inr pg)
        obtain r3 w3 where e: "Start_wait env sock pg w2 = (r3, w3)"
          by (cases "Start_wait env sock pg w2")
        from Start_wait_frame [OF e] f2 have "fs w3 p = fs w0 p" by simp
        with a None b \<open>r1 = Inr d\<close> c Inr e show ?thesis by (simp add: Start_def)
      qed
    qed
  qed
qed

lemma Start_p0_after_init_frame:
  assumes nu: "\<And>r. \<not> under (tmpname env r) p"
  shows "fs (snd (Start_p0 env tt w)) p = fs (snd (once_Do (maybeInitdb_p0 env tt) w)) p"
proof -
  obtain r0 w0 where a: "once_Do (maybeInitdb_p0 env tt) w = (r0, w0)"
    by (cases "once_Do (maybeInitdb_p0 env tt) w")
  show ?thesis
  proof (cases "r0 = None \<and> initdbOk w0")
    case False
    with a show ?thesis by (auto simp: Start_p0_def split: option.splits)
  next
    case True
    obtain r1 w1 where b: "Start_provision_p0 env tt w0 = (r1, w1)"
      by (cases "Start_provision_p0 env tt w0")
    from Start_provision_p0_frame [OF b nu] have f1: "fs w1 p = fs w0 p" .
    show ?thesis
    proof (cases r1)
      case (Inl f)
      with a True b f1 show ?thesis by (simp add: Start_p0_def)
    next
      case (Inr d)
      from b Inr have "d = tmpname env (rand env (trace w0))"
        using Start_provision_p0_ok(1) by blast
      with nu [of "rand env (trace w0)"] conf_under [of d] have pc: "p \<noteq> Join d ''postgresql.conf''"
        by auto
      obtain r2 w2 where cf: "Start_conf_p0 env tt d w1 = (r2, w2)"
        by (cases "Start_conf_p0 env tt d w1")
      from Start_conf_p0_frame [OF cf pc] f1 have f2: "fs w2 p = fs w0 p" by simp
      show ?thesis
      proof (cases r2)
        case (Inl f)
        with a True b Inr cf f2 show ?thesis by (simp add: Start_p0_def)
      next
        case u: (Inr u)
        obtain r3 w3 where c: "Start_launch_p0 env tt d w2 = (r3, w3)"
          by (cases "Start_launch_p0 env tt d w2")
        from Start_launch_p0_frame [OF c] f2 have f3: "fs w3 p = fs w0 p" by simp
        show ?thesis
        proof (cases r3)
          case (Inl f)
          with a True b Inr cf u c f3 show ?thesis by (simp add: Start_p0_def)
        next
          case pg: (Inr pg)
          obtain r4 w4 where e: "Start_wait env (Join d ''.s.PGSQL.5432'') pg w3 = (r4, w4)"
            by (cases "Start_wait env (Join d ''.s.PGSQL.5432'') pg w3")
          from Start_wait_frame [OF e] f3 have "fs w4 p = fs w0 p" by simp
          with a True b Inr cf u c pg e show ?thesis by (simp add: Start_p0_def)
        qed
      qed
    qed
  qed
qed

lemma template_after_init:
  "under (pgtestdata env) p \<Longrightarrow>
     fs (snd (Start env tt w)) p = fs (snd (once_Do (maybeInitdb env tt) w)) p"
  "under (pgtestdata_p0 env) p \<Longrightarrow>
     fs (snd (Start_p0 env tt w)) p = fs (snd (once_Do (maybeInitdb_p0 env tt) w)) p"
  using tmpname_not_template
  by (auto intro!: Start_after_init_frame Start_p0_after_init_frame)

lemma creating_call:
  "fs (snd (once_Do (maybeInitdb quiet_env 5) world_bare)) ''/tmp/pgtestdata/postgresql.conf''
     = Some (File (''port = 5432'' @ conf))"
  "fs (snd (once_Do (maybeInitdb_p0 quiet_env 5) world_bare)) ''/tmp/pgtestdata1/postgresql.conf''
     = Some (File ''port = 5432'')"
  "fs world_bare ''/tmp/pgtestdata/postgresql.conf'' = None"
  "fs world_bare ''/tmp/pgtestdata1/postgresql.conf'' = None"
  by (simp_all add: once_Do_def maybeInitdb_def maybeInitdb_p0_def Output_pg_config_def
        os_Mkdir_def Run_initdb_def os_OpenFile_def File_Write_def File_Close_def IsExist_def
        log_def Let_def pgtestdata_def pgtestdata_p0_def Join_def quiet_env_def world_bare_def
        TrimSpace_def isSpace_def)

text \<open>
  Claim C8. Once the template directory exists (or the once-guard has run), a call of
  \<^verbatim>\<open>Start\<close> changes no path at or below the template, whatever its outcome; \<^verbatim>\<open>Stop\<close>
  of an instance that \<^verbatim>\<open>Start\<close> returned changes none either, in any world. This holds
  for pgtest.go and its template (first two parts) and for the later variant and its
  template (next two). The configuration step of the later variant writes to one path
  only, \<^verbatim>\<open>postgresql.conf\<close> in the working directory of the instance (fifth part).
  In every call of \<^verbatim>\<open>Start\<close>, also the one that creates the template, all that follows
  the guarded initialisation (the temporary directory, the copy, the configuration of the
  copy, the launch, the wait) leaves every path at or below the template as the
  initialisation left it, whatever the outcome of the call (last two parts).
\<close>

theorem template_untouched:
  "(under (pgtestdata env) p \<and> (once_done w \<or> fs w (pgtestdata env) \<noteq> None)
      \<longrightarrow> fs (snd (Start env tt w)) p = fs w p)
   \<and> (under (pgtestdata env) p \<and> Start env tt w = (Inr pg, w1)
      \<longrightarrow> fs (snd (Stop env pg u)) p = fs u p)
   \<and> (under (pgtestdata_p0 env) p \<and> (once_done w \<or> fs w (pgtestdata_p0 env) \<noteq> None)
      \<longrightarrow> fs (snd (Start_p0 env tt w)) p = fs w p)
   \<and> (under (pgtestdata_p0 env) p \<and> Start_p0 env tt w = (Inr qg, w1')
      \<longrightarrow> fs (snd (Stop env qg u)) p = fs u p)
   \<and> (Start_conf_p0 env tt d w = (r, w2) \<and> q \<noteq> Join d ''postgresql.conf''
      \<longrightarrow> fs w2 q = fs w q)
   \<and> (under (pgtestdata env) p
      \<longrightarrow> fs (snd (Start env tt w)) p = fs (snd (once_Do (maybeInitdb env tt) w)) p)
   \<and> (under (pgtestdata_p0 env) p
      \<longrightarrow> fs (snd (Start_p0 env tt w)) p = fs (snd (once_Do (maybeInitdb_p0 env tt) w)) p)"
proof (intro conjI impI; (elim conjE)?)
  assume u: "under (pgtestdata env) p" and o: "once_done w \<or> fs w (pgtestdata env) \<noteq> None"
  from o have "fs (snd (once_Do (maybeInitdb env tt) w)) = fs w"
    using maybeInitdb_template_exists by (intro once_Do_frame) auto
  then show "fs (snd (Start env tt w)) p = fs w p"
    using tmpname_not_template u by (intro Start_after_once_frame) auto
next
  assume u: "under (pgtestdata env) p" and s: "Start env tt w = (Inr pg, w1)"
  from s obtain w0 wa where "Start_provision env tt w0 = (Inr (dir pg), wa)"
    by (rule Start_ok_parts)
  then have "dir pg = tmpname env (rand env (trace w0))"
    by (rule Start_provision_ok(1))
  with tmpname_not_template u have "\<not> under (dir pg) p" by auto
  with Stop_frame [of env pg u "fst (Stop env pg u)" "snd (Stop env pg u)" p]
  show "fs (snd (Stop env pg u)) p = fs u p" by simp
next
  assume u: "under (pgtestdata_p0 env) p"
    and o: "once_done w \<or> fs w (pgtestdata_p0 env) \<noteq> None"
  from o have "fs (snd (once_Do (maybeInitdb_p0 env tt) w)) = fs w"
    using maybeInitdb_p0_template_exists by (intro once_Do_frame) auto
  then show "fs (snd (Start_p0 env tt w)) p = fs w p"
    using tmpname_not_template u by (intro Start_p0_after_once_frame) auto
next
  assume u: "under (pgtestdata_p0 env) p" and s: "Start_p0 env tt w = (Inr qg, w1')"
  from s obtain w0 wa where "Start_provision_p0 env tt w0 = (Inr (dir qg), wa)"
    by (rule Start_p0_ok_parts)
  then have "dir qg = tmpname env (rand env (trace w0))"
    using Start_provision_p0_ok(1) by blast
  with tmpname_not_template u have "\<not> under (dir qg) p" by auto
  with Stop_frame [of env qg u "fst (Stop env qg u)" "snd (Stop env qg u)" p]
  show "fs (snd (Stop env qg u)) p = fs u p" by simp
next
  assume "Start_conf_p0 env tt d w = (r, w2)" and "q \<noteq> Join d ''postgresql.conf''"
  then show "fs w2 q = fs w q" by (rule Start_conf_p0_frame)
next
  assume "under (pgtestdata env) p"
  then show "fs (snd (Start env tt w)) p = fs (snd (once_Do (maybeInitdb env tt) w)) p"
    by (rule template_after_init(1))
next
  assume "under (pgtestdata_p0 env) p"
  then show "fs (snd (Start_p0 env tt w)) p = fs (snd (once_Do (maybeInitdb_p0 env tt) w)) p"
    by (rule template_after_init(2))
qed

theorem template_untouched_witness:
  "fs (snd (Start quiet_env 5 world_tpl)) ''/tmp/pgtestdata/postgresql.conf''
     = Some (File ''port = 5432'')
   \<and> fs (snd (Stop quiet_env \<lparr>t = 5, dir = ''/tmp/pgtest000000000'', cmd = 102\<rparr>
               (snd (Start quiet_env 5 world_tpl)))) ''/tmp/pgtestdata/postgresql.conf''
     = Some (File ''port = 5432'')
   \<and> fs (snd (Start_p0 quiet_env 5 world_tpl)) ''/tmp/pgtestdata1/postgresql.conf''
     = Some (File ''port = 5432'')
   \<and> fs (snd (Stop quiet_env \<lparr>t = 5, dir = ''/tmp/pgtest000000000'', cmd = 106,
                 URL = ''host=/tmp/pgtest000000000 dbname=postgres sslmode=disable''\<rparr>
               (snd (Start_p0 quiet_env 5 world_tpl)))) ''/tmp/pgtestdata1/postgresql.conf''
     = Some (File ''port = 5432'')
   \<and> fs (snd (Start_conf_p0 quiet_env 5 ''/tmp/pgtest000000000''
               (snd (Start_provision_p0 quiet_env 5 world_tpl)))) ''/tmp/pgtestdata1/postgresql.conf''
     = Some (File ''port = 5432'')
   \<and> fs world_bare ''/tmp/pgtestdata/postgresql.conf'' = None
   \<and> fs (snd (Start quiet_env 5 world_bare)) ''/tmp/pgtestdata/postgresql.conf''
     = Some (File (''port = 5432'' @ conf))
   \<and> fs world_bare ''/tmp/pgtestdata1/postgresql.conf'' = None
   \<and> fs (snd (Start_p0 quiet_env 5 world_bare)) ''/tmp/pgtestdata1/postgresql.conf''
     = Some (File ''port = 5432'')"
proof -
  let ?T = "''/tmp/pgtestdata/postgresql.conf''" and ?T' = "''/tmp/pgtestdata1/postgresql.conf''"
  let ?pa = "\<lparr>t = 5, dir = ''/tmp/pgtest000000000'', cmd = 102\<rparr>"
  let ?qa = "\<lparr>t = 5, dir = ''/tmp/pgtest000000000'', cmd = 106,
            URL = ''host=/tmp/pgtest000000000 dbname=postgres sslmode=disable''\<rparr>"
  define w1 where "w1 = snd (Start quiet_env 5 world_tpl)"
  define v1 where "v1 = snd (Start_p0 quiet_env 5 world_tpl)"
  define x1 where "x1 = snd (Start_provision_p0 quiet_env 5 world_tpl)"
  define x2 where "x2 = snd (Start_conf_p0 quiet_env 5 ''/tmp/pgtest000000000'' x1)"
  have u: "under (pgtestdata quiet_env) ?T" and u': "under (pgtestdata_p0 quiet_env) ?T'"
    by (simp_all add: under_def pgtestdata_def pgtestdata_p0_def Join_def quiet_env_def)
  have o: "once_done world_tpl \<or> fs world_tpl (pgtestdata quiet_env) \<noteq> None"
    and o': "once_done world_tpl \<or> fs world_tpl (pgtestdata_p0 quiet_env) \<noteq> None"
    by (simp_all add: world_tpl_def)
  have a: "Start quiet_env 5 world_tpl = (Inr ?pa, w1)"
    unfolding w1_def using first_Start(1) by (metis prod.collapse)
  have b: "Start_p0 quiet_env 5 world_tpl = (Inr ?qa, v1)"
    unfolding v1_def using first_Start_p0(1) by (metis prod.collapse)
  have c: "Start_conf_p0 quiet_env 5 ''/tmp/pgtest000000000'' x1 = (fst (Start_conf_p0 quiet_env 5 ''/tmp/pgtest000000000'' x1), x2)"
    unfolding x2_def by simp
  have ne: "?T' \<noteq> Join ''/tmp/pgtest000000000'' ''postgresql.conf''"
    by (simp add: Join_def)
  have t0: "fs world_tpl ?T = Some (File ''port = 5432'')"
    and t0': "fs world_tpl ?T' = Some (File ''port = 5432'')"
    by (simp_all add: world_tpl_def)
  have x1T: "fs x1 ?T' = Some (File ''port = 5432'')"
    unfolding x1_def by (simp add: machine_defs world_tpl_def)
  note T = template_untouched [where env = quiet_env and tt = 5 and w = world_tpl]
  from T [THEN conjunct1, THEN mp, OF conjI [OF u o]] t0
  have 1: "fs (snd (Start quiet_env 5 world_tpl)) ?T = Some (File ''port = 5432'')" by simp
  from template_untouched [THEN conjunct2, THEN conjunct1, THEN mp, OF conjI [OF u a], of w1]
    1
  have 2: "fs (snd (Stop quiet_env ?pa w1)) ?T = Some (File ''port = 5432'')"
    by (simp add: w1_def)
  from T [THEN conjunct2, THEN conjunct2, THEN conjunct1, THEN mp, OF conjI [OF u' o']] t0'
  have 3: "fs (snd (Start_p0 quiet_env 5 world_tpl)) ?T' = Some (File ''port = 5432'')" by simp
  from template_untouched [THEN conjunct2, THEN conjunct2, THEN conjunct2, THEN conjunct1,
      THEN mp, OF conjI [OF u' b], of v1] 3
  have 4: "fs (snd (Stop quiet_env ?qa v1)) ?T' = Some (File ''port = 5432'')"
    by (simp add: v1_def)
  from template_untouched [THEN conjunct2, THEN conjunct2, THEN conjunct2, THEN conjunct2,
      THEN conjunct1, THEN mp, OF conjI [OF c ne]] x1T
  have 5: "fs x2 ?T' = Some (File ''port = 5432'')" by simp
  from template_untouched [THEN conjunct2, THEN conjunct2, THEN conjunct2, THEN conjunct2,
      THEN conjunct2, THEN conjunct1, THEN mp, OF u, of 5 world_bare]
  have 6: "fs (snd (Start quiet_env 5 world_bare)) ?T = Some (File (''port = 5432'' @ conf))"
    by (simp only: creating_call)
  from template_untouched [THEN conjunct2, THEN conjunct2, THEN conjunct2, THEN conjunct2,
      THEN conjunct2, THEN conjunct2, THEN mp, OF u', of 5 world_bare]
  have 7: "fs (snd (Start_p0 quiet_env 5 world_bare)) ?T' = Some (File ''port = 5432'')"
    by (simp only: creating_call)
  from 1 2 3 4 5 creating_call(3) 6 creating_call(4) 7 show ?thesis
    unfolding w1_def v1_def x2_def x1_def by (intro conjI)
qed

section \<open>A template initialisation that fails\<close>

text \<open>
  Claim C5, as stated: when the initialisation fails after the template directory was
  made, the directory is removed before the error is reported, so that no later
  \<^verbatim>\<open>Start\<close> reuses a half-initialised template. pgtest.go removes nothing: with a
  failing \<^verbatim>\<open>initdb\<close> the directory it made is still there when the error is reported,
  and the initialisation of a later process, on a machine where everything works, finds
  the directory, takes it for a finished template and returns at once.
\<close>

theorem template_kept_counterexample:
  "fs world_bare ''/tmp/pgtestdata'' = None
   \<and> fst (maybeInitdb initdb_fail_env 5 world_bare)
       = Some (Fatal [Str ''initdb'', Error (Err ''exit status 1'')])
   \<and> trace (snd (maybeInitdb initdb_fail_env 5 world_bare))
       = [EMkdir ''/tmp/pgtestdata'', EInitdb ''initdb'' ''/tmp/pgtestdata'']
   \<and> fs (snd (maybeInitdb initdb_fail_env 5 world_bare)) ''/tmp/pgtestdata'' = Some Dir
   \<and> fst (maybeInitdb quiet_env 6 (snd (maybeInitdb initdb_fail_env 5 world_bare))) = None
   \<and> trace (snd (maybeInitdb quiet_env 6 (snd (maybeInitdb initdb_fail_env 5 world_bare))))
       = [EMkdir ''/tmp/pgtestdata'', EInitdb ''initdb'' ''/tmp/pgtestdata'',
          EMkdir ''/tmp/pgtestdata'']"
  by (simp add: maybeInitdb_def os_Mkdir_def Run_initdb_def IsExist_def log_def Let_def
        pgtestdata_def Join_def initdb_fail_env_def quiet_env_def world_bare_def)

lemma os_Mkdir_ok:
  "os_Mkdir env p w = (None, w1) \<Longrightarrow>
     fs w p = None \<and> trace w1 = trace w @ [EMkdir p] \<and> initdbOk w1 = initdbOk w"
  by (auto simp: os_Mkdir_def log_def Let_def split: if_splits option.splits)

lemma Run_initdb_trace:
  "Run_initdb env prog d w = (r, w1) \<Longrightarrow>
     trace w1 = trace w @ [EInitdb prog d] \<and> initdbOk w1 = initdbOk w"
  by (auto simp: Run_initdb_def log_def)

lemma os_RemoveAll_result:
  "os_RemoveAll env d w = (r, w1) \<Longrightarrow>
     trace w1 = trace w @ [ERemoveAll d] \<and> initdbOk w1 = initdbOk w
     \<and> (remove_err env (trace w) d = None \<longrightarrow> (\<forall>p. under d p \<longrightarrow> fs w1 p = None))"
  by (auto simp: os_RemoveAll_def log_def Let_def split: if_splits option.splits)

text \<open>
  Claim C5, amended, for the later variant. Let \<^verbatim>\<open>pg_config\<close> answer, let the template
  directory not exist, let \<^verbatim>\<open>os.Mkdir\<close> make it, and let \<^verbatim>\<open>initdb\<close> then fail with
  an error. Then \<^verbatim>\<open>maybeInitdb\<close> reports that error with the prefix \<^verbatim>\<open>initdb\<close>; the
  calls it has made are \<^verbatim>\<open>pg_config\<close>, the \<^verbatim>\<open>Mkdir\<close>, \<^verbatim>\<open>initdb\<close> and, last, the
  removal of the template directory; \<^verbatim>\<open>initdbOk\<close> is as it was. If that removal does
  not fail, no path at or below the template directory is left. When the once-guard had
  not run, \<^verbatim>\<open>Start\<close> reports the same error and does nothing more.
\<close>

theorem initdb_failure_removes_template:
  "pg_config_out env (trace w) = Inr out
   \<and> fs w (pgtestdata_p0 env) = None
   \<and> mkdir_err env (trace w @ [EPgConfig]) (pgtestdata_p0 env) = None
   \<and> initdb_err env (trace w @ [EPgConfig, EMkdir (pgtestdata_p0 env)]) = Some e
   \<longrightarrow> fst (maybeInitdb_p0 env tt w) = Some (Fatal [Str ''initdb'', Error e])
     \<and> trace (snd (maybeInitdb_p0 env tt w))
         = trace w @ [EPgConfig, EMkdir (pgtestdata_p0 env),
                      EInitdb (Join (TrimSpace out) ''initdb'') (pgtestdata_p0 env),
                      ERemoveAll (pgtestdata_p0 env)]
     \<and> initdbOk (snd (maybeInitdb_p0 env tt w)) = initdbOk w
     \<and> (remove_err env (trace w @ [EPgConfig, EMkdir (pgtestdata_p0 env),
                                   EInitdb (Join (TrimSpace out) ''initdb'') (pgtestdata_p0 env)])
           (pgtestdata_p0 env) = None
         \<longrightarrow> (\<forall>p. under (pgtestdata_p0 env) p \<longrightarrow> fs (snd (maybeInitdb_p0 env tt w)) p = None))
     \<and> (\<not> once_done w
         \<longrightarrow> fst (Start_p0 env tt w) = Inl (Fatal [Str ''initdb'', Error e])
           \<and> fs (snd (Start_p0 env tt w)) = fs (snd (maybeInitdb_p0 env tt w))
           \<and> trace (snd (Start_p0 env tt w)) = trace (snd (maybeInitdb_p0 env tt w)))"
proof (intro impI, elim conjE)
  let ?T = "pgtestdata_p0 env"
  assume pc: "pg_config_out env (trace w) = Inr out"
    and none: "fs w ?T = None"
    and mk: "mkdir_err env (trace w @ [EPgConfig]) ?T = None"
    and ini: "initdb_err env (trace w @ [EPgConfig, EMkdir ?T]) = Some e"
  let ?w2 = "(log EPgConfig w)\<lparr>postgres := Join (TrimSpace out) ''postgres''\<rparr>"
  let ?w3 = "(log (EMkdir ?T) ?w2)\<lparr>fs := (fs w)(?T \<mapsto> Dir)\<rparr>"
  obtain w4 where w4: "Run_initdb env (Join (TrimSpace out) ''initdb'') ?T ?w3 = (Some e, w4)"
    using ini by (simp add: Run_initdb_def log_def)
  obtain r w5 where w5: "os_RemoveAll env ?T w4 = (r, w5)"
    by (cases "os_RemoveAll env ?T w4")
  have m: "os_Mkdir env ?T ?w2 = (None, ?w3)"
    using none mk by (simp add: os_Mkdir_def log_def Let_def)
  have run: "maybeInitdb_p0 env tt w = (Some (Fatal [Str ''initdb'', Error e]), w5)"
    using pc m w4 w5 by (simp add: maybeInitdb_p0_def Output_pg_config_def Let_def IsExist_def)
  note b = Run_initdb_trace [OF w4] and c = os_RemoveAll_result [OF w5]
  from b have tr4: "trace w4 = trace w @ [EPgConfig, EMkdir ?T,
      EInitdb (Join (TrimSpace out) ''initdb'') ?T]"
    by (simp add: log_def)
  from b have ok4: "initdbOk w4 = initdbOk w" by (simp add: log_def)
  have 1: "fst (maybeInitdb_p0 env tt w) = Some (Fatal [Str ''initdb'', Error e])"
    by (simp add: run)
  have 2: "trace (snd (maybeInitdb_p0 env tt w))
         = trace w @ [EPgConfig, EMkdir ?T, EInitdb (Join (TrimSpace out) ''initdb'') ?T,
                      ERemoveAll ?T]"
    using c tr4 by (simp add: run)
  have 3: "initdbOk (snd (maybeInitdb_p0 env tt w)) = initdbOk w"
    using c ok4 by (simp add: run)
  have 4: "remove_err env (trace w @ [EPgConfig, EMkdir ?T,
                                   EInitdb (Join (TrimSpace out) ''initdb'') ?T]) ?T = None
         \<longrightarrow> (\<forall>p. under ?T p \<longrightarrow> fs (snd (maybeInitdb_p0 env tt w)) p = None)"
    using c tr4 by (simp add: run)
  have 5: "\<not> once_done w
         \<longrightarrow> fst (Start_p0 env tt w) = Inl (Fatal [Str ''initdb'', Error e])
           \<and> fs (snd (Start_p0 env tt w)) = fs (snd (maybeInitdb_p0 env tt w))
           \<and> trace (snd (Start_p0 env tt w)) = trace (snd (maybeInitdb_p0 env tt w))"
    by (simp add: Start_p0_def once_Do_def run)
  from 1 2 3 4 5
  show "fst (maybeInitdb_p0 env tt w) = Some (Fatal [Str ''initdb'', Error e])
     \<and> trace (snd (maybeInitdb_p0 env tt w))
         = trace w @ [EPgConfig, EMkdir (pgtestdata_p0 env),
                      EInitdb (Join (TrimSpace out) ''initdb'') (pgtestdata_p0 env),
                      ERemoveAll (pgtestdata_p0 env)]
     \<and> initdbOk (snd (maybeInitdb_p0 env tt w)) = initdbOk w
     \<and> (remove_err env (trace w @ [EPgConfig, EMkdir (pgtestdata_p0 env),
                                   EInitdb (Join (TrimSpace out) ''initdb'') (pgtestdata_p0 env)])
           (pgtestdata_p0 env) = None
         \<longrightarrow> (\<forall>p. under (pgtestdata_p0 env) p \<longrightarrow> fs (snd (maybeInitdb_p0 env tt w)) p = None))
     \<and> (\<not> once_done w
         \<longrightarrow> fst (Start_p0 env tt w) = Inl (Fatal [Str ''initdb'', Error e])
           \<and> fs (snd (Start_p0 env tt w)) = fs (snd (maybeInitdb_p0 env tt w))
           \<and> trace (snd (Start_p0 env tt w)) = trace (snd (maybeInitdb_p0 env tt w)))"
    by (intro conjI)
qed

theorem initdb_failure_removes_template_witness:
  "pg_config_out initdb_fail_env (trace world_bare) = Inr (''/usr/bin'' @ [CHR 0x0A])
   \<and> fs world_bare ''/tmp/pgtestdata1'' = None
   \<and> initdb_err initdb_fail_env (trace world_bare @ [EPgConfig, EMkdir ''/tmp/pgtestdata1''])
       = Some (Err ''exit status 1'')
   \<and> fst (maybeInitdb_p0 initdb_fail_env 5 world_bare)
       = Some (Fatal [Str ''initdb'', Error (Err ''exit status 1'')])
   \<and> trace (snd (maybeInitdb_p0 initdb_fail_env 5 world_bare))
       = [EPgConfig, EMkdir ''/tmp/pgtestdata1'', EInitdb ''/usr/bin/initdb'' ''/tmp/pgtestdata1'',
          ERemoveAll ''/tmp/pgtestdata1'']
   \<and> under ''/tmp/pgtestdata1'' ''/tmp/pgtestdata1/PG_VERSION''
   \<and> fs (snd (maybeInitdb_p0 initdb_fail_env 5 world_bare)) ''/tmp/pgtestdata1/PG_VERSION'' = None
   \<and> fs (snd (maybeInitdb_p0 initdb_fail_env 5 world_bare)) ''/tmp/pgtestdata1'' = None
   \<and> fst (Start_p0 initdb_fail_env 5 world_bare)
       = Inl (Fatal [Str ''initdb'', Error (Err ''exit status 1'')])
   \<and> fs (snd (Start_p0 initdb_fail_env 5 world_bare)) ''/tmp/pgtestdata1'' = None"
proof -
  let ?out = "''/usr/bin'' @ [CHR 0x0A]"
  have T: "pgtestdata_p0 initdb_fail_env = ''/tmp/pgtestdata1''"
    by (simp add: pgtestdata_p0_def Join_def initdb_fail_env_def quiet_env_def)
  have tw: "trace world_bare = []" by (simp add: world_bare_def)
  have h1: "pg_config_out initdb_fail_env (trace world_bare) = Inr ?out"
    by (simp add: initdb_fail_env_def quiet_env_def)
  have h2: "fs world_bare (pgtestdata_p0 initdb_fail_env) = None"
    by (simp add: T world_bare_def)
  have h3: "mkdir_err initdb_fail_env (trace world_bare @ [EPgConfig])
              (pgtestdata_p0 initdb_fail_env) = None"
    by (simp add: initdb_fail_env_def quiet_env_def)
  have h4: "initdb_err initdb_fail_env
              (trace world_bare @ [EPgConfig, EMkdir (pgtestdata_p0 initdb_fail_env)])
            = Some (Err ''exit status 1'')"
    by (simp add: initdb_fail_env_def)
  have rm: "remove_err initdb_fail_env (trace world_bare @ [EPgConfig,
              EMkdir (pgtestdata_p0 initdb_fail_env),
              EInitdb (Join (TrimSpace ?out) ''initdb'') (pgtestdata_p0 initdb_fail_env)])
              (pgtestdata_p0 initdb_fail_env) = None"
    by (simp add: initdb_fail_env_def quiet_env_def)
  have nd: "\<not> once_done world_bare" by (simp add: world_bare_def)
  have prog: "Join (TrimSpace ?out) ''initdb'' = ''/usr/bin/initdb''"
    by (simp add: Join_def TrimSpace_def isSpace_def)
  have u1: "under ''/tmp/pgtestdata1'' ''/tmp/pgtestdata1/PG_VERSION''"
    and u2: "under ''/tmp/pgtestdata1'' ''/tmp/pgtestdata1''"
    by (simp_all add: under_def)
  note R = initdb_failure_removes_template [THEN mp,
      OF conjI [OF h1 conjI [OF h2 conjI [OF h3 h4]]], of 5]
  from R have r1: "fst (maybeInitdb_p0 initdb_fail_env 5 world_bare)
       = Some (Fatal [Str ''initdb'', Error (Err ''exit status 1'')])" by (rule conjunct1)
  from R have r2: "trace (snd (maybeInitdb_p0 initdb_fail_env 5 world_bare))
       = [EPgConfig, EMkdir ''/tmp/pgtestdata1'', EInitdb ''/usr/bin/initdb'' ''/tmp/pgtestdata1'',
          ERemoveAll ''/tmp/pgtestdata1'']"
    unfolding T prog tw by simp
  from R rm have all: "\<forall>p. under ''/tmp/pgtestdata1'' p
      \<longrightarrow> fs (snd (maybeInitdb_p0 initdb_fail_env 5 world_bare)) p = None"
    unfolding T by blast
  from all u1 have r3: "fs (snd (maybeInitdb_p0 initdb_fail_env 5 world_bare))
      ''/tmp/pgtestdata1/PG_VERSION'' = None" by blast
  from all u2 have r4: "fs (snd (maybeInitdb_p0 initdb_fail_env 5 world_bare))
      ''/tmp/pgtestdata1'' = None" by blast
  from R nd have r5: "fst (Start_p0 initdb_fail_env 5 world_bare)
       = Inl (Fatal [Str ''initdb'', Error (Err ''exit status 1'')])"
    and r6: "fs (snd (Start_p0 initdb_fail_env 5 world_bare))
       = fs (snd (maybeInitdb_p0 initdb_fail_env 5 world_bare))" by blast+
  from h1 h2 h4 r1 r2 u1 r3 r4 r5 r6 show ?thesis
    unfolding T by simp
qed

end
